theory Spec2Isabelle
  imports Complex_Main
begin

section \<open>Energy Skate Park: the skater model\<close>

text \<open>
  A shallow embedding of the two model classes of the simulation: \<open>SkaterState\<close>, the
  snapshot the physics works on, and \<open>Skater\<close>, the live model the views observe.

  Numbers. A JavaScript number is modelled as a \<open>real\<close>: the arithmetic of the
  energy formulas is exact, and there are no infinities and no NaN, so the
  \<open>isFinite\<close> assertions of the source hold for every value of the model and have
  no branch here. A second model, after this one, has these values and these
  branches.

  Objects. A \<open>SkaterState\<close> is an object with identity: the store is a list of
  states and a reference is an index into it. \<open>new SkaterState\<close> appends an object,
  a field assignment \<open>state.f = v\<close> updates the object at that reference.
  A \<open>Property\<close> calls its listeners only when a new value differs from the one it
  holds, and \<open>Property.reset\<close> hands back the value it was constructed with.

  Vectors. A \<open>Vector2\<close> is an object too, and a property of vectors holds a
  reference to one. \<open>setToSkater\<close> writes the \<open>x\<close> and \<open>y\<close> of the vectors that
  \<open>positionProperty\<close> and \<open>velocityProperty\<close> hold, in place; when such a vector is
  the one the property was constructed with, a later \<open>reset\<close> hands back what was
  written into it. For these two properties the skater therefore carries the
  contents of the constructor's vector and whether the property still holds that
  vector. Every other assignment to them is taken to store the vector it is
  given, a new one each time.
  \<open>headPositionProperty\<close> holds the vector it was constructed with throughout, and
  \<open>startingPositionProperty\<close> is only ever given copies, which nothing writes.

  Ranges. Of the range checks that a \<open>NumberProperty\<close> makes, the model has those
  of the mass and of the gravity magnitude; a run of the model can set the
  reference height to any value.

  Assertions. The source writes \<open>assert && assert( c )\<close>: the check runs only when
  assertions are enabled. Every function that contains such a line takes that
  switch as its first argument \<open>ea\<close>; a failed check is the result
  \<open>Inl AssertionError\<close>.
\<close>

subsection \<open>Values\<close>

datatype Vector2 = Vector2 (vec_x: real) (vec_y: real)

datatype Range = Range (range_min: real) (range_max: real)

datatype error = AssertionError | TypeError | InvalidValue

text \<open>A track is an object of a class that is not part of this development; only
  its identity matters to the skater.\<close>

type_synonym Track = nat

type_synonym ref = nat

text \<open>\<open>Vector2.magnitudeSquared\<close>, \<open>Vector2.equals\<close> and \<open>Utils.linear\<close> of the
  vector library.\<close>

definition magnitudeSquared :: "Vector2 \<Rightarrow> real" where
  "magnitudeSquared v = vec_x v * vec_x v + vec_y v * vec_y v"

definition equals :: "Vector2 \<Rightarrow> Vector2 \<Rightarrow> bool" where
  "equals a b \<longleftrightarrow> vec_x a = vec_x b \<and> vec_y a = vec_y b"

definition linear :: "real \<Rightarrow> real \<Rightarrow> real \<Rightarrow> real \<Rightarrow> real \<Rightarrow> real" where
  "linear a1 a2 b1 b2 a3 = (b2 - b1) / (a2 - a1) * (a3 - a1) + b1"

subsection \<open>The live skater: fields\<close>

text \<open>One field for each \<open>Property\<close> of the class, under the name the class gives it,
  then the two plain fields that \<open>released\<close> writes (undefined until the first
  release), and the two options of the constructor. \<open>gravityProperty\<close> is derived
  from the magnitude and is a function below. The last four fields are the
  contents of the vectors that \<open>positionProperty\<close> and \<open>velocityProperty\<close> were
  constructed with, and whether each property holds that vector now.\<close>

record Skater =
  massRange :: Range
  defaultMass :: real
  trackProperty :: "Track option"
  parametricPositionProperty :: "real option"
  parametricSpeedProperty :: real
  onTopSideOfTrackProperty :: bool
  gravityMagnitudeProperty :: real
  referenceHeightProperty :: real
  positionProperty :: Vector2
  massProperty :: real
  directionProperty :: string
  velocityProperty :: Vector2
  draggingProperty :: bool
  kineticEnergyProperty :: real
  potentialEnergyProperty :: real
  thermalEnergyProperty :: real
  totalEnergyProperty :: real
  angleProperty :: real
  startingPositionProperty :: Vector2
  startingUProperty :: "real option"
  startingUpProperty :: bool
  startingTrackProperty :: "Track option"
  headPositionProperty :: Vector2
  startingTrackControlPointSources :: "Vector2 list option"
  startingAngle :: "real option"
  positionInitial :: Vector2
  positionIsInitial :: bool
  velocityInitial :: Vector2
  velocityIsInitial :: bool

definition gravityProperty :: "Skater \<Rightarrow> real" where
  "gravityProperty skater = - gravityMagnitudeProperty skater"

subsection \<open>The live skater: the vectors of position and velocity\<close>

text \<open>\<open>positionProperty.value = v\<close> with a new vector \<open>v\<close>: the property holds \<open>v\<close> from
  now on, not the vector it was constructed with.\<close>

definition positionProperty_set :: "Vector2 \<Rightarrow> Skater \<Rightarrow> Skater" where
  "positionProperty_set v this = this\<lparr>positionProperty := v, positionIsInitial := False\<rparr>"

text \<open>\<open>positionProperty.value.x = ...; positionProperty.value.y = ...\<close>: the vector that
  the property holds is written in place. If it is the constructor's vector, that
  is what has changed.\<close>

definition positionProperty_write :: "Vector2 \<Rightarrow> Skater \<Rightarrow> Skater" where
  "positionProperty_write v this =
     this\<lparr>positionProperty := v,
          positionInitial := (if positionIsInitial this then v else positionInitial this)\<rparr>"

text \<open>\<open>positionProperty.reset()\<close>: the property holds the constructor's vector again,
  with the contents that vector has now.\<close>

definition positionProperty_reset :: "Skater \<Rightarrow> Skater" where
  "positionProperty_reset this =
     this\<lparr>positionProperty := positionInitial this, positionIsInitial := True\<rparr>"

text \<open>The same for \<open>velocityProperty\<close>.\<close>

definition velocityProperty_set :: "Vector2 \<Rightarrow> Skater \<Rightarrow> Skater" where
  "velocityProperty_set v this = this\<lparr>velocityProperty := v, velocityIsInitial := False\<rparr>"

definition velocityProperty_write :: "Vector2 \<Rightarrow> Skater \<Rightarrow> Skater" where
  "velocityProperty_write v this =
     this\<lparr>velocityProperty := v,
          velocityInitial := (if velocityIsInitial this then v else velocityInitial this)\<rparr>"

definition velocityProperty_reset :: "Skater \<Rightarrow> Skater" where
  "velocityProperty_reset this =
     this\<lparr>velocityProperty := velocityInitial this, velocityIsInitial := True\<rparr>"

subsection \<open>SkaterState: fields, overrides, sources\<close>

record SkaterState =
  positionX :: real
  positionY :: real
  velocityX :: real
  velocityY :: real
  gravity :: real
  referenceHeight :: real
  mass :: real
  track :: "Track option"
  angle :: real
  onTopSideOfTrack :: bool
  parametricPosition :: "real option"
  parametricSpeed :: real
  dragging :: bool
  thermalEnergy :: real

text \<open>An overrides object: a key is present (\<open>Some\<close>) or absent (\<open>None\<close>); the value of a
  present \<open>track\<close> or \<open>parametricPosition\<close> key may itself be \<open>null\<close>.\<close>

record overrides =
  ov_positionX :: "real option"
  ov_positionY :: "real option"
  ov_velocityX :: "real option"
  ov_velocityY :: "real option"
  ov_gravity :: "real option"
  ov_referenceHeight :: "real option"
  ov_mass :: "real option"
  ov_track :: "Track option option"
  ov_angle :: "real option"
  ov_onTopSideOfTrack :: "bool option"
  ov_parametricPosition :: "real option option"
  ov_parametricSpeed :: "real option"
  ov_dragging :: "bool option"
  ov_thermalEnergy :: "real option"

definition EMPTY_OBJECT :: overrides where
  "EMPTY_OBJECT = \<lparr> ov_positionX = None, ov_positionY = None, ov_velocityX = None,
     ov_velocityY = None, ov_gravity = None, ov_referenceHeight = None, ov_mass = None,
     ov_track = None, ov_angle = None, ov_onTopSideOfTrack = None,
     ov_parametricPosition = None, ov_parametricSpeed = None, ov_dragging = None,
     ov_thermalEnergy = None \<rparr>"

type_synonym heap = "SkaterState list"

text \<open>The source of a construction is the live skater (it has a
  \<open>positionProperty\<close>) or another state, given by reference.\<close>

datatype source = FromSkater Skater | FromState ref

text \<open>\<open>key in overrides ? overrides[ key ] : ...\<close>: the override when the key is
  present, the value read from the source otherwise.\<close>

definition getValue :: "'a option \<Rightarrow> 'a \<Rightarrow> 'a" where
  "getValue ov src = (case ov of Some v \<Rightarrow> v | None \<Rightarrow> src)"

text \<open>What the source holds under each key: \<open>source[ key + 'Property' ].value\<close> for
  the skater, \<open>source[ key ]\<close> for a state.\<close>

definition source_fields :: "heap \<Rightarrow> source \<Rightarrow> SkaterState" where
  "source_fields h src = (case src of
     FromSkater skater \<Rightarrow>
       \<lparr> positionX = vec_x (positionProperty skater),
         positionY = vec_y (positionProperty skater),
         velocityX = vec_x (velocityProperty skater),
         velocityY = vec_y (velocityProperty skater),
         gravity = gravityProperty skater,
         referenceHeight = referenceHeightProperty skater,
         mass = massProperty skater,
         track = trackProperty skater,
         angle = angleProperty skater,
         onTopSideOfTrack = onTopSideOfTrackProperty skater,
         parametricPosition = parametricPositionProperty skater,
         parametricSpeed = parametricSpeedProperty skater,
         dragging = draggingProperty skater,
         thermalEnergy = thermalEnergyProperty skater \<rparr>
   | FromState r \<Rightarrow> h ! r)"

subsection \<open>SkaterState: construction\<close>

text \<open>\<open>setState\<close> writes the fourteen fields of its receiver \<open>this\<close>, then checks that
  the thermal energy is not negative, and returns \<open>this\<close>.\<close>

definition setState :: "bool \<Rightarrow> heap \<Rightarrow> ref \<Rightarrow> source \<Rightarrow> overrides option \<Rightarrow> error + (ref \<times> heap)" where
  "setState ea h this src overrides =
     (let ov = (case overrides of None \<Rightarrow> EMPTY_OBJECT | Some o' \<Rightarrow> o');
          s = source_fields h src;
          h' = h[this := \<lparr>
            positionX = getValue (ov_positionX ov) (positionX s),
            positionY = getValue (ov_positionY ov) (positionY s),
            velocityX = getValue (ov_velocityX ov) (velocityX s),
            velocityY = getValue (ov_velocityY ov) (velocityY s),
            gravity = getValue (ov_gravity ov) (gravity s),
            referenceHeight = getValue (ov_referenceHeight ov) (referenceHeight s),
            mass = getValue (ov_mass ov) (mass s),
            track = getValue (ov_track ov) (track s),
            angle = getValue (ov_angle ov) (angle s),
            onTopSideOfTrack = getValue (ov_onTopSideOfTrack ov) (onTopSideOfTrack s),
            parametricPosition = getValue (ov_parametricPosition ov) (parametricPosition s),
            parametricSpeed = getValue (ov_parametricSpeed ov) (parametricSpeed s),
            dragging = getValue (ov_dragging ov) (dragging s),
            thermalEnergy = getValue (ov_thermalEnergy ov) (thermalEnergy s) \<rparr>]
      in if ea \<and> \<not> thermalEnergy (h' ! this) \<ge> 0 then Inl AssertionError
         else Inr (this, h'))"

text \<open>A fresh object, before the constructor has written it.\<close>

definition fresh_object :: SkaterState where
  "fresh_object = \<lparr> positionX = 0, positionY = 0, velocityX = 0, velocityY = 0,
     gravity = 0, referenceHeight = 0, mass = 0, track = None, angle = 0,
     onTopSideOfTrack = False, parametricPosition = None, parametricSpeed = 0,
     dragging = False, thermalEnergy = 0 \<rparr>"

text \<open>\<open>new SkaterState( source, overrides )\<close>: allocate, then \<open>setState\<close> on the new
  object. A reference that is not in the store is not an object: reading a field
  of it is a \<open>TypeError\<close>.\<close>

definition SkaterState_new :: "bool \<Rightarrow> heap \<Rightarrow> source \<Rightarrow> overrides option \<Rightarrow> error + (ref \<times> heap)" where
  "SkaterState_new ea h src overrides =
     (case src of
        FromState r \<Rightarrow>
          if r < length h then setState ea (h @ [fresh_object]) (length h) src overrides
          else Inl TypeError
      | FromSkater skater \<Rightarrow> setState ea (h @ [fresh_object]) (length h) src overrides)"

text \<open>A field assignment \<open>state.f = v\<close> on the object at reference \<open>state\<close>.\<close>

definition assign :: "heap \<Rightarrow> ref \<Rightarrow> (SkaterState \<Rightarrow> SkaterState) \<Rightarrow> heap" where
  "assign h state f = h[state := f (h ! state)]"

subsection \<open>SkaterState: energies\<close>

definition getTotalEnergy :: "SkaterState \<Rightarrow> real" where
  "getTotalEnergy this =
     0.5 * mass this * (velocityX this * velocityX this + velocityY this * velocityY this)
     - mass this * gravity this * (positionY this - referenceHeight this)
     + thermalEnergy this"

definition getKineticEnergy :: "SkaterState \<Rightarrow> real" where
  "getKineticEnergy this =
     0.5 * mass this * (velocityX this * velocityX this + velocityY this * velocityY this)"

definition getPotentialEnergy :: "SkaterState \<Rightarrow> real" where
  "getPotentialEnergy this =
     - mass this * gravity this * (positionY this - referenceHeight this)"

subsection \<open>SkaterState: the transforms\<close>

text \<open>Each method builds \<open>new SkaterState( this, ... )\<close> and then assigns the fields of
  the new object in the order of the source. A parameter carries the name of its
  field with a prime.\<close>

definition update :: "bool \<Rightarrow> heap \<Rightarrow> ref \<Rightarrow> overrides option \<Rightarrow> error + (ref \<times> heap)" where
  "update ea h this overrides' =
     (case SkaterState_new ea h (FromState this) overrides' of
        Inl e \<Rightarrow> Inl e
      | Inr (state, h0) \<Rightarrow> Inr (state, h0))"

definition updateTrackUD :: "bool \<Rightarrow> heap \<Rightarrow> ref \<Rightarrow> Track option \<Rightarrow> real \<Rightarrow> error + (ref \<times> heap)" where
  "updateTrackUD ea h this track' parametricSpeed' =
     (case SkaterState_new ea h (FromState this) (Some EMPTY_OBJECT) of
        Inl e \<Rightarrow> Inl e
      | Inr (state, h0) \<Rightarrow>
          (let h1 = assign h0 state (\<lambda>s. s\<lparr>track := track'\<rparr>);
               h2 = assign h1 state (\<lambda>s. s\<lparr>parametricSpeed := parametricSpeed'\<rparr>)
           in Inr (state, h2)))"

definition updateUUDVelocityPosition :: "bool \<Rightarrow> heap \<Rightarrow> ref \<Rightarrow> real option \<Rightarrow> real \<Rightarrow> real \<Rightarrow> real \<Rightarrow> real \<Rightarrow> real \<Rightarrow> error + (ref \<times> heap)" where
  "updateUUDVelocityPosition ea h this parametricPosition' parametricSpeed' velocityX' velocityY' positionX' positionY' =
     (case SkaterState_new ea h (FromState this) (Some EMPTY_OBJECT) of
        Inl e \<Rightarrow> Inl e
      | Inr (state, h0) \<Rightarrow>
          (let h1 = assign h0 state (\<lambda>s. s\<lparr>parametricPosition := parametricPosition'\<rparr>);
               h2 = assign h1 state (\<lambda>s. s\<lparr>parametricSpeed := parametricSpeed'\<rparr>);
               h3 = assign h2 state (\<lambda>s. s\<lparr>velocityX := velocityX'\<rparr>);
               h4 = assign h3 state (\<lambda>s. s\<lparr>velocityY := velocityY'\<rparr>);
               h5 = assign h4 state (\<lambda>s. s\<lparr>positionX := positionX'\<rparr>);
               h6 = assign h5 state (\<lambda>s. s\<lparr>positionY := positionY'\<rparr>)
           in Inr (state, h6)))"

definition updatePositionAngleUpVelocity :: "bool \<Rightarrow> heap \<Rightarrow> ref \<Rightarrow> real \<Rightarrow> real \<Rightarrow> real \<Rightarrow> bool \<Rightarrow> real \<Rightarrow> real \<Rightarrow> error + (ref \<times> heap)" where
  "updatePositionAngleUpVelocity ea h this positionX' positionY' angle' onTopSideOfTrack' velocityX' velocityY' =
     (case SkaterState_new ea h (FromState this) (Some EMPTY_OBJECT) of
        Inl e \<Rightarrow> Inl e
      | Inr (state, h0) \<Rightarrow>
          (let h1 = assign h0 state (\<lambda>s. s\<lparr>angle := angle'\<rparr>);
               h2 = assign h1 state (\<lambda>s. s\<lparr>onTopSideOfTrack := onTopSideOfTrack'\<rparr>);
               h3 = assign h2 state (\<lambda>s. s\<lparr>velocityX := velocityX'\<rparr>);
               h4 = assign h3 state (\<lambda>s. s\<lparr>velocityY := velocityY'\<rparr>);
               h5 = assign h4 state (\<lambda>s. s\<lparr>positionX := positionX'\<rparr>);
               h6 = assign h5 state (\<lambda>s. s\<lparr>positionY := positionY'\<rparr>)
           in Inr (state, h6)))"

definition updateThermalEnergy :: "bool \<Rightarrow> heap \<Rightarrow> ref \<Rightarrow> real \<Rightarrow> error + (ref \<times> heap)" where
  "updateThermalEnergy ea h this thermalEnergy' =
     (if ea \<and> \<not> thermalEnergy' \<ge> 0 then Inl AssertionError
      else (case SkaterState_new ea h (FromState this) (Some EMPTY_OBJECT) of
           Inl e \<Rightarrow> Inl e
         | Inr (state, h0) \<Rightarrow>
             (let h1 = assign h0 state (\<lambda>s. s\<lparr>thermalEnergy := thermalEnergy'\<rparr>)
              in Inr (state, h1))))"

definition updateUPosition :: "bool \<Rightarrow> heap \<Rightarrow> ref \<Rightarrow> real option \<Rightarrow> real \<Rightarrow> real \<Rightarrow> error + (ref \<times> heap)" where
  "updateUPosition ea h this parametricPosition' positionX' positionY' =
     (case SkaterState_new ea h (FromState this) (Some EMPTY_OBJECT) of
        Inl e \<Rightarrow> Inl e
      | Inr (state, h0) \<Rightarrow>
          (let h1 = assign h0 state (\<lambda>s. s\<lparr>parametricPosition := parametricPosition'\<rparr>);
               h2 = assign h1 state (\<lambda>s. s\<lparr>positionX := positionX'\<rparr>);
               h3 = assign h2 state (\<lambda>s. s\<lparr>positionY := positionY'\<rparr>)
           in Inr (state, h3)))"

definition switchToGround :: "bool \<Rightarrow> heap \<Rightarrow> ref \<Rightarrow> real \<Rightarrow> real \<Rightarrow> real \<Rightarrow> real \<Rightarrow> real \<Rightarrow> error + (ref \<times> heap)" where
  "switchToGround ea h this thermalEnergy' velocityX' velocityY' positionX' positionY' =
     (if ea \<and> \<not> thermalEnergy' \<ge> 0 then Inl AssertionError
      else (case SkaterState_new ea h (FromState this) (Some EMPTY_OBJECT) of
           Inl e \<Rightarrow> Inl e
         | Inr (state, h0) \<Rightarrow>
             (let h1 = assign h0 state (\<lambda>s. s\<lparr>thermalEnergy := thermalEnergy'\<rparr>);
                  h2 = assign h1 state (\<lambda>s. s\<lparr>track := None\<rparr>);
                  h3 = assign h2 state (\<lambda>s. s\<lparr>onTopSideOfTrack := True\<rparr>);
                  h4 = assign h3 state (\<lambda>s. s\<lparr>angle := 0\<rparr>);
                  h5 = assign h4 state (\<lambda>s. s\<lparr>velocityX := velocityX'\<rparr>);
                  h6 = assign h5 state (\<lambda>s. s\<lparr>velocityY := velocityY'\<rparr>);
                  h7 = assign h6 state (\<lambda>s. s\<lparr>positionX := positionX'\<rparr>);
                  h8 = assign h7 state (\<lambda>s. s\<lparr>positionY := positionY'\<rparr>)
              in Inr (state, h8))))"

definition strikeGround :: "bool \<Rightarrow> heap \<Rightarrow> ref \<Rightarrow> real \<Rightarrow> real \<Rightarrow> error + (ref \<times> heap)" where
  "strikeGround ea h this thermalEnergy' positionX' =
     (if ea \<and> \<not> thermalEnergy' \<ge> 0 then Inl AssertionError
      else (case SkaterState_new ea h (FromState this) (Some EMPTY_OBJECT) of
           Inl e \<Rightarrow> Inl e
         | Inr (state, h0) \<Rightarrow>
             (let h1 = assign h0 state (\<lambda>s. s\<lparr>thermalEnergy := thermalEnergy'\<rparr>);
                  h2 = assign h1 state (\<lambda>s. s\<lparr>positionX := positionX'\<rparr>);
                  h3 = assign h2 state (\<lambda>s. s\<lparr>positionY := 0\<rparr>);
                  h4 = assign h3 state (\<lambda>s. s\<lparr>velocityX := 0\<rparr>);
                  h5 = assign h4 state (\<lambda>s. s\<lparr>velocityY := 0\<rparr>);
                  h6 = assign h5 state (\<lambda>s. s\<lparr>angle := 0\<rparr>);
                  h7 = assign h6 state (\<lambda>s. s\<lparr>onTopSideOfTrack := True\<rparr>)
              in Inr (state, h7))))"

definition copy :: "bool \<Rightarrow> heap \<Rightarrow> ref \<Rightarrow> error + (ref \<times> heap)" where
  "copy ea h this =
     (case SkaterState_new ea h (FromState this) (Some EMPTY_OBJECT) of
        Inl e \<Rightarrow> Inl e
      | Inr (state, h0) \<Rightarrow> Inr (state, h0))"

definition leaveTrack :: "bool \<Rightarrow> heap \<Rightarrow> ref \<Rightarrow> error + (ref \<times> heap)" where
  "leaveTrack ea h this =
     (case SkaterState_new ea h (FromState this) (Some EMPTY_OBJECT) of
        Inl e \<Rightarrow> Inl e
      | Inr (state, h0) \<Rightarrow>
          (let h1 = assign h0 state (\<lambda>s. s\<lparr>parametricSpeed := 0\<rparr>);
               h2 = assign h1 state (\<lambda>s. s\<lparr>track := None\<rparr>)
           in Inr (state, h2)))"

definition updatePosition :: "bool \<Rightarrow> heap \<Rightarrow> ref \<Rightarrow> real \<Rightarrow> real \<Rightarrow> error + (ref \<times> heap)" where
  "updatePosition ea h this positionX' positionY' =
     (case SkaterState_new ea h (FromState this) (Some EMPTY_OBJECT) of
        Inl e \<Rightarrow> Inl e
      | Inr (state, h0) \<Rightarrow>
          (let h1 = assign h0 state (\<lambda>s. s\<lparr>positionX := positionX'\<rparr>);
               h2 = assign h1 state (\<lambda>s. s\<lparr>positionY := positionY'\<rparr>)
           in Inr (state, h2)))"

definition updateUDVelocity :: "bool \<Rightarrow> heap \<Rightarrow> ref \<Rightarrow> real \<Rightarrow> real \<Rightarrow> real \<Rightarrow> error + (ref \<times> heap)" where
  "updateUDVelocity ea h this parametricSpeed' velocityX' velocityY' =
     (case SkaterState_new ea h (FromState this) (Some EMPTY_OBJECT) of
        Inl e \<Rightarrow> Inl e
      | Inr (state, h0) \<Rightarrow>
          (let h1 = assign h0 state (\<lambda>s. s\<lparr>parametricSpeed := parametricSpeed'\<rparr>);
               h2 = assign h1 state (\<lambda>s. s\<lparr>velocityX := velocityX'\<rparr>);
               h3 = assign h2 state (\<lambda>s. s\<lparr>velocityY := velocityY'\<rparr>)
           in Inr (state, h3)))"

definition continueFreeFall :: "bool \<Rightarrow> heap \<Rightarrow> ref \<Rightarrow> real \<Rightarrow> real \<Rightarrow> real \<Rightarrow> real \<Rightarrow> error + (ref \<times> heap)" where
  "continueFreeFall ea h this velocityX' velocityY' positionX' positionY' =
     (case SkaterState_new ea h (FromState this) (Some EMPTY_OBJECT) of
        Inl e \<Rightarrow> Inl e
      | Inr (state, h0) \<Rightarrow>
          (let h1 = assign h0 state (\<lambda>s. s\<lparr>velocityX := velocityX'\<rparr>);
               h2 = assign h1 state (\<lambda>s. s\<lparr>velocityY := velocityY'\<rparr>);
               h3 = assign h2 state (\<lambda>s. s\<lparr>positionX := positionX'\<rparr>);
               h4 = assign h3 state (\<lambda>s. s\<lparr>positionY := positionY'\<rparr>)
           in Inr (state, h4)))"

definition attachToTrack :: "bool \<Rightarrow> heap \<Rightarrow> ref \<Rightarrow> real \<Rightarrow> Track option \<Rightarrow> bool \<Rightarrow> real option \<Rightarrow> real \<Rightarrow> real \<Rightarrow> real \<Rightarrow> real \<Rightarrow> real \<Rightarrow> error + (ref \<times> heap)" where
  "attachToTrack ea h this thermalEnergy' track' onTopSideOfTrack' parametricPosition' parametricSpeed' velocityX' velocityY' positionX' positionY' =
     (if ea \<and> \<not> thermalEnergy' \<ge> 0 then Inl AssertionError
      else (case SkaterState_new ea h (FromState this) (Some EMPTY_OBJECT) of
           Inl e \<Rightarrow> Inl e
         | Inr (state, h0) \<Rightarrow>
             (let h1 = assign h0 state (\<lambda>s. s\<lparr>thermalEnergy := thermalEnergy'\<rparr>);
                  h2 = assign h1 state (\<lambda>s. s\<lparr>track := track'\<rparr>);
                  h3 = assign h2 state (\<lambda>s. s\<lparr>onTopSideOfTrack := onTopSideOfTrack'\<rparr>);
                  h4 = assign h3 state (\<lambda>s. s\<lparr>parametricPosition := parametricPosition'\<rparr>);
                  h5 = assign h4 state (\<lambda>s. s\<lparr>parametricSpeed := parametricSpeed'\<rparr>);
                  h6 = assign h5 state (\<lambda>s. s\<lparr>velocityX := velocityX'\<rparr>);
                  h7 = assign h6 state (\<lambda>s. s\<lparr>velocityY := velocityY'\<rparr>);
                  h8 = assign h7 state (\<lambda>s. s\<lparr>positionX := positionX'\<rparr>);
                  h9 = assign h8 state (\<lambda>s. s\<lparr>positionY := positionY'\<rparr>)
              in Inr (state, h9))))"

definition getSpeedFromEnergy :: "SkaterState \<Rightarrow> real \<Rightarrow> real" where
  "getSpeedFromEnergy this kineticEnergy = sqrt (2 * \<bar>kineticEnergy\<bar> / mass this)"

definition getSpeed :: "SkaterState \<Rightarrow> real" where
  "getSpeed this = sqrt (velocityX this * velocityX this + velocityY this * velocityY this)"

definition getVelocity :: "SkaterState \<Rightarrow> Vector2" where
  "getVelocity this = Vector2 (velocityX this) (velocityY this)"

definition getPosition :: "SkaterState \<Rightarrow> Vector2" where
  "getPosition this = Vector2 (positionX this) (positionY this)"

text \<open>The transforms as one type of calls, so that a statement about every transform
  is a statement about every value of this type.\<close>

datatype transform =
    Update "overrides option"
  | UpdateTrackUD "Track option" real
  | UpdateUUDVelocityPosition "real option" real real real real real
  | UpdatePositionAngleUpVelocity real real real bool real real
  | UpdateThermalEnergy real
  | UpdateUPosition "real option" real real
  | SwitchToGround real real real real real
  | StrikeGround real real
  | Copy
  | LeaveTrack
  | UpdatePosition real real
  | UpdateUDVelocity real real real
  | ContinueFreeFall real real real real
  | AttachToTrack real "Track option" bool "real option" real real real real real

fun call :: "bool \<Rightarrow> heap \<Rightarrow> ref \<Rightarrow> transform \<Rightarrow> error + (ref \<times> heap)" where
  "call ea h this (Update ov) = update ea h this ov"
| "call ea h this (UpdateTrackUD t ud) = updateTrackUD ea h this t ud"
| "call ea h this (UpdateUUDVelocityPosition u ud vx vy px py) =
     updateUUDVelocityPosition ea h this u ud vx vy px py"
| "call ea h this (UpdatePositionAngleUpVelocity px py a up vx vy) =
     updatePositionAngleUpVelocity ea h this px py a up vx vy"
| "call ea h this (UpdateThermalEnergy e) = updateThermalEnergy ea h this e"
| "call ea h this (UpdateUPosition u px py) = updateUPosition ea h this u px py"
| "call ea h this (SwitchToGround e vx vy px py) = switchToGround ea h this e vx vy px py"
| "call ea h this (StrikeGround e px) = strikeGround ea h this e px"
| "call ea h this Copy = copy ea h this"
| "call ea h this LeaveTrack = leaveTrack ea h this"
| "call ea h this (UpdatePosition px py) = updatePosition ea h this px py"
| "call ea h this (UpdateUDVelocity ud vx vy) = updateUDVelocity ea h this ud vx vy"
| "call ea h this (ContinueFreeFall vx vy px py) = continueFreeFall ea h this vx vy px py"
| "call ea h this (AttachToTrack e t up u ud vx vy px py) =
     attachToTrack ea h this e t up u ud vx vy px py"

subsection \<open>The live skater: energies, listeners, head position\<close>

text \<open>\<open>energyChangedEmitter\<close> and \<open>returnedEmitter\<close> have no listener inside the class;
  their \<open>emit\<close> changes no field. The one listener of \<open>updatedEmitter\<close> that the
  class adds itself is \<open>updateHeadPosition\<close>.\<close>

definition updateEnergy :: "Skater \<Rightarrow> Skater" where
  "updateEnergy this =
     (let k = this\<lparr>kineticEnergyProperty :=
                0.5 * massProperty this * magnitudeSquared (velocityProperty this)\<rparr>;
          k = k\<lparr>potentialEnergyProperty :=
                - massProperty k * (vec_y (positionProperty k) - referenceHeightProperty k)
                  * gravityProperty k\<rparr>;
          k = k\<lparr>totalEnergyProperty :=
                kineticEnergyProperty k + potentialEnergyProperty k + thermalEnergyProperty k\<rparr>
      in k)"

text \<open>\<open>updateEnergy\<close> of the older class of Energy Skate Park: Basics
  (\<open>energy-skate-park-basics/model/Skater.js\<close>), which has no reference height: the
  potential energy is taken from the ground.\<close>

definition updateEnergy_basics :: "Skater \<Rightarrow> Skater" where
  "updateEnergy_basics this =
     (let k = this\<lparr>kineticEnergyProperty :=
                0.5 * massProperty this * magnitudeSquared (velocityProperty this)\<rparr>;
          k = k\<lparr>potentialEnergyProperty :=
                - massProperty k * vec_y (positionProperty k) * gravityProperty k\<rparr>;
          k = k\<lparr>totalEnergyProperty :=
                kineticEnergyProperty k + potentialEnergyProperty k + thermalEnergyProperty k\<rparr>
      in k)"

definition getHeadPosition :: "Skater \<Rightarrow> Vector2" where
  "getHeadPosition this =
     (let skaterHeight = linear (range_min (massRange this)) (range_max (massRange this))
                           1.65 2.4 (massProperty this);
          vectorX = skaterHeight * cos (angleProperty this - pi / 2);
          vectorY = skaterHeight * sin (angleProperty this - pi / 2)
      in Vector2 (vec_x (positionProperty this) + vectorX)
                 (vec_y (positionProperty this) - vectorY))"

definition updateHeadPosition :: "Skater \<Rightarrow> Skater" where
  "updateHeadPosition this =
     (let headPosition = getHeadPosition this
      in this\<lparr>headPositionProperty := Vector2 (vec_x headPosition) (vec_y headPosition)\<rparr>)"

definition emit_updated :: "Skater \<Rightarrow> Skater" where
  "emit_updated this = updateHeadPosition this"

text \<open>The listener that the constructor links to \<open>draggingProperty\<close>, and the
  assignment \<open>draggingProperty.value = v\<close> that runs it when the value changes.\<close>

definition draggingListener :: "bool \<Rightarrow> Skater \<Rightarrow> Skater" where
  "draggingListener dragging' this =
     (if dragging' then velocityProperty_set (Vector2 0 0) this else this)"

definition set_dragging :: "bool \<Rightarrow> Skater \<Rightarrow> Skater" where
  "set_dragging v this =
     (if v = draggingProperty this then this
      else draggingListener v (this\<lparr>draggingProperty := v\<rparr>))"

text \<open>The listener linked to \<open>parametricSpeedProperty\<close>.\<close>

definition parametricSpeedListener :: "real \<Rightarrow> Skater \<Rightarrow> Skater" where
  "parametricSpeedListener parametricSpeed' this =
     (let speedThreshold = 0.01
      in if parametricSpeed' > speedThreshold then
           this\<lparr>directionProperty :=
             (if onTopSideOfTrackProperty this then ''right'' else ''left'')\<rparr>
         else if parametricSpeed' < - speedThreshold then
           this\<lparr>directionProperty :=
             (if onTopSideOfTrackProperty this then ''left'' else ''right'')\<rparr>
         else this)"

definition set_parametricSpeed :: "real \<Rightarrow> Skater \<Rightarrow> Skater" where
  "set_parametricSpeed v this =
     (if v = parametricSpeedProperty this then this
      else parametricSpeedListener v (this\<lparr>parametricSpeedProperty := v\<rparr>))"

text \<open>The listener linked to \<open>massProperty\<close> is \<open>updateEnergy\<close>.\<close>

definition set_mass :: "real \<Rightarrow> Skater \<Rightarrow> Skater" where
  "set_mass v this =
     (if v = massProperty this then this
      else updateEnergy (this\<lparr>massProperty := v\<rparr>))"

subsection \<open>The live skater: construction\<close>

text \<open>The constructor with its two options. Every \<open>link\<close> calls its listener once with
  the value the property holds. The head position is computed from the fields
  that are already set.\<close>

definition Skater_new :: "real \<Rightarrow> Range \<Rightarrow> Skater" where
  "Skater_new defaultMass' massRange' =
     (let k = \<lparr> massRange = massRange', defaultMass = defaultMass',
                trackProperty = None, parametricPositionProperty = Some 0,
                parametricSpeedProperty = 0, onTopSideOfTrackProperty = True,
                gravityMagnitudeProperty = 9.8, referenceHeightProperty = 0,
                positionProperty = Vector2 3.5 0, massProperty = defaultMass',
                directionProperty = ''left'', velocityProperty = Vector2 0 0,
                draggingProperty = False, kineticEnergyProperty = 0,
                potentialEnergyProperty = 0, thermalEnergyProperty = 0,
                totalEnergyProperty = 0, angleProperty = 0,
                startingPositionProperty = Vector2 3.5 0, startingUProperty = Some 0,
                startingUpProperty = True, startingTrackProperty = None,
                headPositionProperty = Vector2 0 0,
                startingTrackControlPointSources = None, startingAngle = None,
                positionInitial = Vector2 3.5 0, positionIsInitial = True,
                velocityInitial = Vector2 0 0, velocityIsInitial = True \<rparr>;
          k = k\<lparr>headPositionProperty := getHeadPosition k\<rparr>;
          k = draggingListener (draggingProperty k) k;
          k = parametricSpeedListener (parametricSpeedProperty k) k;
          k = updateEnergy k;
          k = updateEnergy k
      in k)"

text \<open>\<open>headPositionProperty.reset()\<close>: the property holds the vector it was constructed
  with, which \<open>updateHeadPosition\<close> writes in place, and never another; handing that
  vector back changes nothing.\<close>

definition headPositionProperty_reset :: "Skater \<Rightarrow> Skater" where
  "headPositionProperty_reset this = this"

subsection \<open>The live skater: commands\<close>

definition clearThermal :: "Skater \<Rightarrow> Skater" where
  "clearThermal this = updateEnergy (this\<lparr>thermalEnergyProperty := 0\<rparr>)"

definition reset :: "Skater \<Rightarrow> Skater" where
  "reset this =
     (let k = this\<lparr>angleProperty := 0\<rparr>;
          k = k\<lparr>trackProperty := None\<rparr>;
          k = k\<lparr>parametricPositionProperty := Some 0\<rparr>;
          k = set_parametricSpeed 0 k;
          k = k\<lparr>onTopSideOfTrackProperty := True\<rparr>;
          k = k\<lparr>gravityMagnitudeProperty := 9.8\<rparr>;
          k = k\<lparr>referenceHeightProperty := 0\<rparr>;
          k = positionProperty_reset k;
          k = set_mass (defaultMass k) k;
          k = k\<lparr>directionProperty := ''left''\<rparr>;
          k = velocityProperty_reset k;
          k = set_dragging False k;
          k = k\<lparr>kineticEnergyProperty := 0\<rparr>;
          k = k\<lparr>potentialEnergyProperty := 0\<rparr>;
          k = k\<lparr>thermalEnergyProperty := 0\<rparr>;
          k = k\<lparr>totalEnergyProperty := 0\<rparr>;
          k = k\<lparr>angleProperty := 0\<rparr>;
          k = k\<lparr>startingPositionProperty := Vector2 3.5 0\<rparr>;
          k = k\<lparr>startingUProperty := Some 0\<rparr>;
          k = k\<lparr>startingUpProperty := True\<rparr>;
          k = k\<lparr>startingTrackProperty := None\<rparr>;
          k = headPositionProperty_reset k;
          k = updateEnergy k
      in emit_updated k)"

definition resetPosition :: "Skater \<Rightarrow> Skater" where
  "resetPosition this =
     (let k = this\<lparr>angleProperty := 0\<rparr>;
          mass' = massProperty k;
          k = k\<lparr>trackProperty := None\<rparr>;
          k = k\<lparr>parametricPositionProperty := Some 0\<rparr>;
          k = set_parametricSpeed 0 k;
          k = k\<lparr>onTopSideOfTrackProperty := True\<rparr>;
          k = k\<lparr>gravityMagnitudeProperty := 9.8\<rparr>;
          k = positionProperty_reset k;
          k = set_mass (defaultMass k) k;
          k = k\<lparr>directionProperty := ''left''\<rparr>;
          k = velocityProperty_reset k;
          k = set_dragging False k;
          k = k\<lparr>kineticEnergyProperty := 0\<rparr>;
          k = k\<lparr>potentialEnergyProperty := 0\<rparr>;
          k = k\<lparr>thermalEnergyProperty := 0\<rparr>;
          k = k\<lparr>totalEnergyProperty := 0\<rparr>;
          k = k\<lparr>angleProperty := 0\<rparr>;
          k = k\<lparr>startingPositionProperty := Vector2 3.5 0\<rparr>;
          k = k\<lparr>startingUProperty := Some 0\<rparr>;
          k = k\<lparr>startingUpProperty := True\<rparr>;
          k = k\<lparr>startingTrackProperty := None\<rparr>;
          k = headPositionProperty_reset k;
          k = set_mass mass' k;
          k = updateEnergy k
      in emit_updated k)"

definition returnToInitialPosition :: "Skater \<Rightarrow> Skater" where
  "returnToInitialPosition this =
     (let mass' = massProperty this;
          k = reset this
      in set_mass mass' k)"

subsection \<open>Tracks\<close>

text \<open>The class \<open>Track\<close> is outside this development. The skater and its view call
  four of its methods; what they return for each track is a parameter of every
  operation that calls one.\<close>

record Tracks =
  getPoint :: "Track \<Rightarrow> real option \<Rightarrow> Vector2"
  getViewAngleAt :: "Track \<Rightarrow> real option \<Rightarrow> real"
  getUnitNormalVector :: "Track \<Rightarrow> real option \<Rightarrow> Vector2"
  copyControlPointSources :: "Track \<Rightarrow> Vector2 list"

text \<open>\<open>arrayEquals\<close>: the lengths first, then the elements from index 0, leaving at
  the first pair that differs.\<close>

function arrayEquals_loop :: "Vector2 list \<Rightarrow> Vector2 list \<Rightarrow> nat \<Rightarrow> bool" where
  "arrayEquals_loop a b i =
     (if i < length a then
        (if \<not> equals (a ! i) (b ! i) then False else arrayEquals_loop a b (i + 1))
      else True)"
  by pat_completeness auto
termination
  by (relation "measure (\<lambda>(a, b, i). length a - i)") auto

definition arrayEquals :: "Vector2 list \<Rightarrow> Vector2 list \<Rightarrow> bool" where
  "arrayEquals a b = (if length a \<noteq> length b then False else arrayEquals_loop a b 0)"

subsection \<open>The live skater: return and release\<close>

text \<open>The condition of \<open>returnSkater\<close>, evaluated left to right. \<open>arrayEquals\<close> reads the
  length of \<open>startingTrackControlPointSources\<close>, which is a \<open>TypeError\<close> while that
  field is undefined.\<close>

definition onStartingTrack :: "Tracks \<Rightarrow> Skater \<Rightarrow> error + bool" where
  "onStartingTrack tracks this =
     (case startingTrackProperty this of
        None \<Rightarrow> Inr False
      | Some startingTrack \<Rightarrow>
          if trackProperty this \<noteq> Some startingTrack then Inr False
          else (case startingTrackControlPointSources this of
                  None \<Rightarrow> Inl TypeError
                | Some sources \<Rightarrow>
                    Inr (arrayEquals (copyControlPointSources tracks startingTrack) sources)))"

text \<open>\<open>angleProperty\<close> holds a number. While \<open>startingAngle\<close> is undefined,
  \<open>this.angleProperty.value = this.startingAngle\<close> has no number to assign: with
  assertions enabled the property rejects the value and throws; with assertions
  disabled the method runs to its end and leaves \<open>angleProperty\<close> holding
  \<open>undefined\<close>, which is not a value of \<open>angleProperty\<close> here. The model gives the
  result \<open>InvalidValue\<close> in both cases: a skater whose angle is not a number is
  outside this model. The second model has it.\<close>

definition returnSkater :: "Tracks \<Rightarrow> Skater \<Rightarrow> error + Skater" where
  "returnSkater tracks this =
     (case onStartingTrack tracks this of
        Inl e \<Rightarrow> Inl e
      | Inr sameTrack \<Rightarrow>
          (case startingAngle this of
             None \<Rightarrow> Inl InvalidValue
           | Some startingAngle' \<Rightarrow>
               (let k = (if sameTrack then
                           (let k = this\<lparr>parametricPositionProperty := startingUProperty this\<rparr>;
                                k = k\<lparr>angleProperty := startingAngle'\<rparr>;
                                k = k\<lparr>onTopSideOfTrackProperty := startingUpProperty k\<rparr>
                            in set_parametricSpeed 0 k)
                         else
                           (let k = this\<lparr>trackProperty := None\<rparr>
                            in k\<lparr>angleProperty := startingAngle'\<rparr>));
                    k = positionProperty_set (startingPositionProperty k) k;
                    k = velocityProperty_set (Vector2 0 0) k;
                    k = clearThermal k;
                    k = updateEnergy k
                in Inr (emit_updated k))))"

definition released :: "Tracks \<Rightarrow> Track option \<Rightarrow> real option \<Rightarrow> Skater \<Rightarrow> Skater" where
  "released tracks targetTrack targetU this =
     (let k = set_dragging False this;
          k = velocityProperty_set (Vector2 0 0) k;
          k = set_parametricSpeed 0 k;
          k = k\<lparr>trackProperty := targetTrack\<rparr>;
          k = k\<lparr>parametricPositionProperty := targetU\<rparr>;
          k = (case targetTrack of
                 Some t \<Rightarrow> positionProperty_set (getPoint tracks t (parametricPositionProperty k)) k
               | None \<Rightarrow> k);
          k = k\<lparr>startingPositionProperty := positionProperty k\<rparr>;
          k = k\<lparr>startingUProperty := targetU\<rparr>;
          k = k\<lparr>startingUpProperty := onTopSideOfTrackProperty k\<rparr>;
          k = k\<lparr>startingTrackProperty := targetTrack\<rparr>;
          k = k\<lparr>startingTrackControlPointSources :=
                Some (case targetTrack of Some t \<Rightarrow> copyControlPointSources tracks t | None \<Rightarrow> [])\<rparr>;
          k = k\<lparr>startingAngle := Some (angleProperty k)\<rparr>;
          k = updateEnergy k
      in emit_updated k)"

subsection \<open>Committing a state to the live skater\<close>

text \<open>\<open>SkaterState.setToSkater\<close>, the one method of a state that writes the skater.\<close>

definition setToSkater :: "Tracks \<Rightarrow> SkaterState \<Rightarrow> Skater \<Rightarrow> Skater" where
  "setToSkater tracks this skater =
     (let k = skater\<lparr>trackProperty := track this\<rparr>;
          k = positionProperty_write (Vector2 (positionX this) (positionY this)) k;
          k = velocityProperty_write (Vector2 (velocityX this) (velocityY this)) k;
          k = k\<lparr>parametricPositionProperty := parametricPosition this\<rparr>;
          k = set_parametricSpeed (parametricSpeed this) k;
          k = k\<lparr>thermalEnergyProperty := thermalEnergy this\<rparr>;
          k = k\<lparr>onTopSideOfTrackProperty := onTopSideOfTrack this\<rparr>;
          k = k\<lparr>angleProperty :=
                (case trackProperty k of
                   Some t \<Rightarrow> getViewAngleAt tracks t (parametricPosition this)
                             + (if onTopSideOfTrack this then 0 else pi)
                 | None \<Rightarrow> angle this)\<rparr>
      in updateEnergy k)"

subsection \<open>The drag handler of the skater's view\<close>

text \<open>\<open>SkaterNode\<close>: \<open>start\<close> sets the dragging flag, clears the thermal energy and
  runs \<open>drag\<close>. What \<open>drag\<close> gets from the pointer and from the model's search for
  the closest track is a parameter: the track and the parameter on it when the
  pointer is close enough to one, and the pointer's position.\<close>

definition drag :: "Tracks \<Rightarrow> (Track \<times> real) option \<Rightarrow> Vector2 \<Rightarrow> Skater \<Rightarrow> Skater" where
  "drag tracks closeEnough position' skater =
     (let k = (case closeEnough of
                 Some (targetTrack, targetU) \<Rightarrow>
                   (let k = skater\<lparr>onTopSideOfTrackProperty :=
                              vec_y (getUnitNormalVector tracks targetTrack (Some targetU)) > 0\<rparr>;
                        k = k\<lparr>angleProperty :=
                              getViewAngleAt tracks targetTrack (Some targetU)
                              + (if onTopSideOfTrackProperty k then 0 else pi)\<rparr>
                    in positionProperty_set (getPoint tracks targetTrack (Some targetU)) k)
               | None \<Rightarrow>
                   (let k = skater\<lparr>angleProperty := 0\<rparr>;
                        k = k\<lparr>onTopSideOfTrackProperty := True\<rparr>
                    in positionProperty_set position' k));
          k = updateEnergy k
      in emit_updated k)"

definition start :: "Tracks \<Rightarrow> (Track \<times> real) option \<Rightarrow> Vector2 \<Rightarrow> Skater \<Rightarrow> Skater" where
  "start tracks closeEnough position' skater =
     (let k = set_dragging True skater;
          k = k\<lparr>thermalEnergyProperty := 0\<rparr>
      in drag tracks closeEnough position' k)"

subsection \<open>The gravity property and the sliders\<close>

text \<open>The derivation of \<open>gravityProperty\<close> from the magnitude, with its check.
  \<open>gravityProperty\<close> above is the value it returns.\<close>

definition gravityDerivation :: "bool \<Rightarrow> real \<Rightarrow> error + real" where
  "gravityDerivation ea gravity' =
     (let gravityWithDirection = - gravity'
      in if ea \<and> \<not> gravityWithDirection \<le> 0 then Inl AssertionError
         else Inr gravityWithDirection)"

text \<open>A \<open>NumberProperty\<close> constructed with a \<open>range\<close> checks each new value against it
  when assertions are enabled.\<close>

definition inRange :: "Range \<Rightarrow> real \<Rightarrow> bool" where
  "inRange r v \<longleftrightarrow> range_min r \<le> v \<and> v \<le> range_max r"

subsection \<open>Runs of the model\<close>

text \<open>Everything the classes above let a caller do to a skater and to the store of
  states, as one type of events: the commands of the skater, the drag gesture of
  its view, the mass, gravity and reference-height controls, the construction of a
  state from the skater, a transform of a state in the store, and the commit of a
  state to the skater (\<open>setToSkater\<close>, then the \<open>updated\<close> notification, as the plot
  cursor does it). A configuration is the skater and the store; an event that
  throws ends the run.\<close>

datatype event =
    ClearThermal
  | Reset
  | ResetPosition
  | ReturnToInitialPosition
  | ReturnSkater Tracks
  | UpdateEnergy
  | Released Tracks "Track option" "real option"
  | DragStart Tracks "(Track \<times> real) option" Vector2
  | Drag Tracks "(Track \<times> real) option" Vector2
  | SetMass real
  | SetGravityMagnitude real
  | SetReferenceHeight real
  | NewState "overrides option"
  | Transform ref transform
  | SetToSkater Tracks ref

type_synonym config = "Skater \<times> heap"

fun exec :: "bool \<Rightarrow> event \<Rightarrow> config \<Rightarrow> error + config" where
  "exec ea ClearThermal (k, h) = Inr (clearThermal k, h)"
| "exec ea Reset (k, h) = Inr (reset k, h)"
| "exec ea ResetPosition (k, h) = Inr (resetPosition k, h)"
| "exec ea ReturnToInitialPosition (k, h) = Inr (returnToInitialPosition k, h)"
| "exec ea (ReturnSkater tracks) (k, h) =
     (case returnSkater tracks k of Inl e \<Rightarrow> Inl e | Inr k' \<Rightarrow> Inr (k', h))"
| "exec ea UpdateEnergy (k, h) = Inr (updateEnergy k, h)"
| "exec ea (Released tracks targetTrack targetU) (k, h) =
     Inr (released tracks targetTrack targetU k, h)"
| "exec ea (DragStart tracks closeEnough p) (k, h) = Inr (start tracks closeEnough p k, h)"
| "exec ea (Drag tracks closeEnough p) (k, h) = Inr (drag tracks closeEnough p k, h)"
| "exec ea (SetMass v) (k, h) =
     (if ea \<and> \<not> inRange (massRange k) v then Inl AssertionError
      else Inr (set_mass v k, h))"
| "exec ea (SetGravityMagnitude v) (k, h) =
     (if ea \<and> \<not> inRange (Range (1 / 1000000) 100) v then Inl AssertionError
      else (case gravityDerivation ea v of
              Inl e \<Rightarrow> Inl e
            | Inr g \<Rightarrow> Inr (k\<lparr>gravityMagnitudeProperty := v\<rparr>, h)))"
| "exec ea (SetReferenceHeight v) (k, h) = Inr (k\<lparr>referenceHeightProperty := v\<rparr>, h)"
| "exec ea (NewState ov) (k, h) =
     (case SkaterState_new ea h (FromSkater k) ov of
        Inl e \<Rightarrow> Inl e
      | Inr (state, h') \<Rightarrow> Inr (k, h'))"
| "exec ea (Transform r t) (k, h) =
     (case call ea h r t of Inl e \<Rightarrow> Inl e | Inr (state, h') \<Rightarrow> Inr (k, h'))"
| "exec ea (SetToSkater tracks r) (k, h) =
     (if r < length h then Inr (emit_updated (setToSkater tracks (h ! r) k), h)
      else Inl TypeError)"

fun run :: "bool \<Rightarrow> event list \<Rightarrow> config \<Rightarrow> error + config" where
  "run ea [] c = Inr c"
| "run ea (e # es) c = (case exec ea e c of Inl x \<Rightarrow> Inl x | Inr c' \<Rightarrow> run ea es c')"


text \<open>An event that names the mass in an overrides object.\<close>

fun overrides_mass :: "event \<Rightarrow> bool" where
  "overrides_mass (NewState (Some ov)) = (ov_mass ov \<noteq> None)"
| "overrides_mass (Transform r (Update (Some ov))) = (ov_mass ov \<noteq> None)"
| "overrides_mass e = False"

subsection \<open>The checks of a transform\<close>

text \<open>What a transform checks when assertions are enabled: its thermal-energy
  argument where it has one, and the thermal energy that the constructor finds in
  the new object.\<close>

fun assertions_pass :: "heap \<Rightarrow> ref \<Rightarrow> transform \<Rightarrow> bool" where
  "assertions_pass h this (Update ov) =
     (0 \<le> getValue (ov_thermalEnergy (case ov of None \<Rightarrow> EMPTY_OBJECT | Some o' \<Rightarrow> o'))
             (thermalEnergy (h ! this)))"
| "assertions_pass h this (UpdateThermalEnergy e) = (0 \<le> e \<and> 0 \<le> thermalEnergy (h ! this))"
| "assertions_pass h this (SwitchToGround e vx vy px py) =
     (0 \<le> e \<and> 0 \<le> thermalEnergy (h ! this))"
| "assertions_pass h this (StrikeGround e px) = (0 \<le> e \<and> 0 \<le> thermalEnergy (h ! this))"
| "assertions_pass h this (AttachToTrack e t up u ud vx vy px py) =
     (0 \<le> e \<and> 0 \<le> thermalEnergy (h ! this))"
| "assertions_pass h this t = (0 \<le> thermalEnergy (h ! this))"

subsection \<open>The condition of returnSkater, in the words of the specification\<close>

text \<open>A starting track was recorded, the skater is on that track, and the track's
  control-point sources are element-wise equal to those captured at release.\<close>

definition same_unchanged_track :: "Tracks \<Rightarrow> Skater \<Rightarrow> bool" where
  "same_unchanged_track tracks this =
     (case startingTrackProperty this of
        None \<Rightarrow> False
      | Some startingTrack \<Rightarrow>
          trackProperty this = Some startingTrack \<and>
          (case startingTrackControlPointSources this of
             None \<Rightarrow> False
           | Some sources \<Rightarrow>
               list_all2 equals (copyControlPointSources tracks startingTrack) sources))"

subsection \<open>Sample values\<close>

text \<open>A state in free fall that has just stepped below the ground, a state on a
  track, a skater with a mass range, and a set of tracks.\<close>

definition falling :: SkaterState where
  "falling = \<lparr> positionX = 1, positionY = - 1 / 4, velocityX = 3, velocityY = - 4,
     gravity = - 98 / 10, referenceHeight = 0, mass = 60, track = None, angle = 1,
     onTopSideOfTrack = True, parametricPosition = Some 0, parametricSpeed = 0,
     dragging = False, thermalEnergy = 5 \<rparr>"

definition riding :: SkaterState where
  "riding = \<lparr> positionX = 2, positionY = 3, velocityX = 1, velocityY = - 1,
     gravity = - 98 / 10, referenceHeight = 0, mass = 60, track = Some 7, angle = 1 / 2,
     onTopSideOfTrack = True, parametricPosition = Some (1 / 4), parametricSpeed = 2,
     dragging = False, thermalEnergy = 5 \<rparr>"

definition sampleTracks :: Tracks where
  "sampleTracks = \<lparr> getPoint = (\<lambda>t u. Vector2 2 3), getViewAngleAt = (\<lambda>t u. 1 / 2),
     getUnitNormalVector = (\<lambda>t u. Vector2 0 1),
     copyControlPointSources = (\<lambda>t. [Vector2 0 4, Vector2 2 3, Vector2 4 4]) \<rparr>"

definition sampleSkater :: Skater where
  "sampleSkater = Skater_new 60 (Range 25 100)"

text \<open>The sample skater released on track 7, then moved along it by a commit; the
  same tracks after an edit of a control point; the sample skater with the
  reference height raised to 2.\<close>

definition releasedSkater :: Skater where
  "releasedSkater = released sampleTracks (Some 7) (Some (1 / 4)) sampleSkater"

definition movedSkater :: Skater where
  "movedSkater = setToSkater sampleTracks riding releasedSkater"

definition editedTracks :: Tracks where
  "editedTracks = sampleTracks\<lparr>copyControlPointSources :=
     (\<lambda>t. [Vector2 0 4, Vector2 2 2, Vector2 4 4])\<rparr>"

definition raisedSkater :: Skater where
  "raisedSkater = sampleSkater\<lparr>referenceHeightProperty := 2\<rparr>"

subsection \<open>Invariants of a run\<close>


text \<open>A recorded starting track comes with its control-point sources and its
  angle.\<close>

definition snapshot_ok :: "Skater \<Rightarrow> bool" where
  "snapshot_ok k \<longleftrightarrow>
     (if startingTrackProperty k = None then True
      else startingTrackControlPointSources k \<noteq> None \<and> startingAngle k \<noteq> None)"

subsection \<open>Sample runs\<close>






section \<open>The two classes over JavaScript numbers\<close>

text \<open>
  The constructor of \<open>SkaterState\<close> checks \<open>isFinite( x )\<close> for four of its fields and
  \<open>thermalEnergy >= 0\<close>. Over the reals the first check holds of every value and
  has no branch; and \<open>NaN >= 0\<close> is false, which no real number shows. This section
  transcribes the two classes once more, over a type of numbers that has
  \<open>Infinity\<close>, \<open>-Infinity\<close> and \<open>NaN\<close>, for the statements about the range of the
  values that the fields hold. A definition of this section that has a counterpart
  in the first model carries its name with the suffix \<open>_js\<close>.

  Numbers. A finite double is modelled as a real, and the two zeros are one
  value. The comparisons, strict equality, \<open>isFinite\<close> and the unary minus are
  defined on these numbers. The operations that round, \<open>+\<close>, \<open>-\<close>, \<open>*\<close>, \<open>/\<close>,
  \<open>Math.cos\<close> and \<open>Math.sin\<close>, are parameters: every function that computes takes a
  record \<open>ar\<close> of them, and what is proved holds whatever they return.

  Undefined. \<open>startingAngle\<close> is undefined until the first release, and
  \<open>returnSkater\<close> assigns it to \<open>angleProperty\<close>. A \<open>NumberProperty\<close> checks that a new
  value is a number only when assertions are enabled; when they are disabled the
  property holds \<open>undefined\<close> afterwards, and a state built from the skater copies
  it. So the angle of the skater and of a state is an optional number here.
  Where a number is computed from an undefined value, JavaScript computes with
  \<open>NaN\<close>.

  Objects, vectors, ranges and assertions are as in the first model.
\<close>

subsection \<open>Numbers\<close>

datatype number = Finite real | PositiveInfinity | NegativeInfinity | NaN

fun isFinite :: "number \<Rightarrow> bool" where
  "isFinite (Finite x) = True"
| "isFinite PositiveInfinity = False"
| "isFinite NegativeInfinity = False"
| "isFinite NaN = False"

text \<open>\<open>x <= y\<close>: false when either side is \<open>NaN\<close>; otherwise the order with \<open>-Infinity\<close>
  at the bottom and \<open>Infinity\<close> at the top.\<close>

fun lessEq_js :: "number \<Rightarrow> number \<Rightarrow> bool" where
  "lessEq_js NaN y = False"
| "lessEq_js x NaN = False"
| "lessEq_js NegativeInfinity y = True"
| "lessEq_js x PositiveInfinity = True"
| "lessEq_js (Finite x) (Finite y) = (x \<le> y)"
| "lessEq_js PositiveInfinity y = False"
| "lessEq_js x NegativeInfinity = False"


definition greaterEq_js :: "number \<Rightarrow> number \<Rightarrow> bool" where
  "greaterEq_js x y \<longleftrightarrow> lessEq_js y x"






subsection \<open>Values over JavaScript numbers\<close>

datatype Vector2_js = Vector2_js (vec_x_js: number) (vec_y_js: number)






subsection \<open>The live skater over JavaScript numbers: fields\<close>









subsection \<open>SkaterState over JavaScript numbers: fields and construction\<close>

text \<open>The fourteen fields. The angle is copied from the skater and may be
  \<open>undefined\<close>.\<close>

record SkaterState_js =
  positionX_js :: number
  positionY_js :: number
  velocityX_js :: number
  velocityY_js :: number
  gravity_js :: number
  referenceHeight_js :: number
  mass_js :: number
  track_js :: "Track option"
  angle_js :: "number option"
  onTopSideOfTrack_js :: bool
  parametricPosition_js :: "number option"
  parametricSpeed_js :: number
  dragging_js :: bool
  thermalEnergy_js :: number



text \<open>The store of states, the source of a construction and what it holds under
  each key, as in the first model.\<close>

type_synonym heap_js = "SkaterState_js list"







definition assign_js :: "heap_js \<Rightarrow> ref \<Rightarrow> (SkaterState_js \<Rightarrow> SkaterState_js) \<Rightarrow> heap_js" where
  "assign_js h state f = h[state := f (h ! state)]"

subsection \<open>SkaterState over JavaScript numbers: the transforms\<close>


















subsection \<open>The live skater over JavaScript numbers: energies, listeners, head position\<close>










subsection \<open>The live skater over JavaScript numbers: construction and commands\<close>

















subsection \<open>Runs of the model over JavaScript numbers\<close>





subsection \<open>What a run is given, and what its configurations hold\<close>





text \<open>Both components of a vector are finite.\<close>

definition finite_js :: "Vector2_js \<Rightarrow> bool" where
  "finite_js v \<longleftrightarrow> isFinite (vec_x_js v) \<and> isFinite (vec_y_js v)"



subsection \<open>Sample values over JavaScript numbers\<close>










section \<open>The store: what a construction and a transform return\<close>

lemma getValue_simps [simp]: "getValue None v = v" "getValue (Some w) v = w"
  by (simp_all add: getValue_def)

text \<open>Copying a state of the store: the new object is appended and holds the
  receiver's fields.\<close>

lemma new_from_state:
  "this < length h \<Longrightarrow>
   SkaterState_new ea h (FromState this) (Some EMPTY_OBJECT) =
     (if ea \<and> \<not> thermalEnergy (h ! this) \<ge> 0 then Inl AssertionError
      else Inr (length h, h @ [h ! this]))"
  by (simp add: SkaterState_new_def setState_def source_fields_def EMPTY_OBJECT_def
      nth_append Let_def)


lemma new_dangling:
  "\<not> this < length h \<Longrightarrow> SkaterState_new ea h (FromState this) ov = Inl TypeError"
  by (simp add: SkaterState_new_def)

lemma assign_last [simp]: "assign (h @ [s]) (length h) f = h @ [f s]"
  by (simp add: assign_def)

text \<open>One equation for each transform: the checks in the order the source makes
  them, then the store with the new object.\<close>

lemma updateTrackUD_eq:
  "this < length h \<Longrightarrow> updateTrackUD ea h this t ud =
     (if ea \<and> \<not> thermalEnergy (h ! this) \<ge> 0 then Inl AssertionError
      else Inr (length h, h @ [(h ! this)\<lparr>track := t, parametricSpeed := ud\<rparr>]))"
  by (simp add: updateTrackUD_def new_from_state Let_def)

lemma updateUUDVelocityPosition_eq:
  "this < length h \<Longrightarrow> updateUUDVelocityPosition ea h this u ud vx vy px py =
     (if ea \<and> \<not> thermalEnergy (h ! this) \<ge> 0 then Inl AssertionError
      else Inr (length h, h @ [(h ! this)\<lparr>parametricPosition := u, parametricSpeed := ud,
             velocityX := vx, velocityY := vy, positionX := px, positionY := py\<rparr>]))"
  by (simp add: updateUUDVelocityPosition_def new_from_state Let_def)

lemma updatePositionAngleUpVelocity_eq:
  "this < length h \<Longrightarrow> updatePositionAngleUpVelocity ea h this px py a up vx vy =
     (if ea \<and> \<not> thermalEnergy (h ! this) \<ge> 0 then Inl AssertionError
      else Inr (length h, h @ [(h ! this)\<lparr>angle := a, onTopSideOfTrack := up,
             velocityX := vx, velocityY := vy, positionX := px, positionY := py\<rparr>]))"
  by (simp add: updatePositionAngleUpVelocity_def new_from_state Let_def)

lemma updateThermalEnergy_eq:
  "this < length h \<Longrightarrow> updateThermalEnergy ea h this e =
     (if ea \<and> \<not> e \<ge> 0 then Inl AssertionError
      else if ea \<and> \<not> thermalEnergy (h ! this) \<ge> 0 then Inl AssertionError
      else Inr (length h, h @ [(h ! this)\<lparr>thermalEnergy := e\<rparr>]))"
  by (simp add: updateThermalEnergy_def new_from_state Let_def)

lemma updateUPosition_eq:
  "this < length h \<Longrightarrow> updateUPosition ea h this u px py =
     (if ea \<and> \<not> thermalEnergy (h ! this) \<ge> 0 then Inl AssertionError
      else Inr (length h, h @ [(h ! this)\<lparr>parametricPosition := u,
             positionX := px, positionY := py\<rparr>]))"
  by (simp add: updateUPosition_def new_from_state Let_def)

lemma switchToGround_eq:
  "this < length h \<Longrightarrow> switchToGround ea h this e vx vy px py =
     (if ea \<and> \<not> e \<ge> 0 then Inl AssertionError
      else if ea \<and> \<not> thermalEnergy (h ! this) \<ge> 0 then Inl AssertionError
      else Inr (length h, h @ [(h ! this)\<lparr>thermalEnergy := e, track := None,
             onTopSideOfTrack := True, angle := 0, velocityX := vx, velocityY := vy,
             positionX := px, positionY := py\<rparr>]))"
  by (simp add: switchToGround_def new_from_state Let_def)

lemma strikeGround_eq:
  "this < length h \<Longrightarrow> strikeGround ea h this e px =
     (if ea \<and> \<not> e \<ge> 0 then Inl AssertionError
      else if ea \<and> \<not> thermalEnergy (h ! this) \<ge> 0 then Inl AssertionError
      else Inr (length h, h @ [(h ! this)\<lparr>thermalEnergy := e, positionX := px,
             positionY := 0, velocityX := 0, velocityY := 0, angle := 0,
             onTopSideOfTrack := True\<rparr>]))"
  by (simp add: strikeGround_def new_from_state Let_def)

lemma copy_eq:
  "this < length h \<Longrightarrow> copy ea h this =
     (if ea \<and> \<not> thermalEnergy (h ! this) \<ge> 0 then Inl AssertionError
      else Inr (length h, h @ [h ! this]))"
  by (simp add: copy_def new_from_state)

lemma leaveTrack_eq:
  "this < length h \<Longrightarrow> leaveTrack ea h this =
     (if ea \<and> \<not> thermalEnergy (h ! this) \<ge> 0 then Inl AssertionError
      else Inr (length h, h @ [(h ! this)\<lparr>parametricSpeed := 0, track := None\<rparr>]))"
  by (simp add: leaveTrack_def new_from_state Let_def)

lemma updatePosition_eq:
  "this < length h \<Longrightarrow> updatePosition ea h this px py =
     (if ea \<and> \<not> thermalEnergy (h ! this) \<ge> 0 then Inl AssertionError
      else Inr (length h, h @ [(h ! this)\<lparr>positionX := px, positionY := py\<rparr>]))"
  by (simp add: updatePosition_def new_from_state Let_def)

lemma updateUDVelocity_eq:
  "this < length h \<Longrightarrow> updateUDVelocity ea h this ud vx vy =
     (if ea \<and> \<not> thermalEnergy (h ! this) \<ge> 0 then Inl AssertionError
      else Inr (length h, h @ [(h ! this)\<lparr>parametricSpeed := ud,
             velocityX := vx, velocityY := vy\<rparr>]))"
  by (simp add: updateUDVelocity_def new_from_state Let_def)

lemma continueFreeFall_eq:
  "this < length h \<Longrightarrow> continueFreeFall ea h this vx vy px py =
     (if ea \<and> \<not> thermalEnergy (h ! this) \<ge> 0 then Inl AssertionError
      else Inr (length h, h @ [(h ! this)\<lparr>velocityX := vx, velocityY := vy,
             positionX := px, positionY := py\<rparr>]))"
  by (simp add: continueFreeFall_def new_from_state Let_def)

lemma attachToTrack_eq:
  "this < length h \<Longrightarrow> attachToTrack ea h this e t up u ud vx vy px py =
     (if ea \<and> \<not> e \<ge> 0 then Inl AssertionError
      else if ea \<and> \<not> thermalEnergy (h ! this) \<ge> 0 then Inl AssertionError
      else Inr (length h, h @ [(h ! this)\<lparr>thermalEnergy := e, track := t,
             onTopSideOfTrack := up, parametricPosition := u, parametricSpeed := ud,
             velocityX := vx, velocityY := vy, positionX := px, positionY := py\<rparr>]))"
  by (simp add: attachToTrack_def new_from_state Let_def)

section \<open>The live skater: each setter as one record update\<close>

lemmas vector_defs =
  positionProperty_set_def positionProperty_write_def positionProperty_reset_def
  velocityProperty_set_def velocityProperty_write_def velocityProperty_reset_def
  headPositionProperty_reset_def

lemma updateEnergy_eq:
  "updateEnergy k = k\<lparr>
     kineticEnergyProperty := 0.5 * massProperty k * magnitudeSquared (velocityProperty k),
     potentialEnergyProperty :=
       - massProperty k * (vec_y (positionProperty k) - referenceHeightProperty k)
         * gravityProperty k,
     totalEnergyProperty :=
       0.5 * massProperty k * magnitudeSquared (velocityProperty k)
       + - massProperty k * (vec_y (positionProperty k) - referenceHeightProperty k)
         * gravityProperty k
       + thermalEnergyProperty k\<rparr>"
  by (simp add: updateEnergy_def gravityProperty_def Let_def)

lemma emit_updated_eq: "emit_updated k = k\<lparr>headPositionProperty := getHeadPosition k\<rparr>"
  by (simp add: emit_updated_def updateHeadPosition_def Let_def)

lemma set_dragging_eq:
  "set_dragging v k = k\<lparr>
     draggingProperty := v,
     velocityProperty :=
       (if v \<and> \<not> draggingProperty k then Vector2 0 0 else velocityProperty k),
     velocityIsInitial :=
       (if v \<and> \<not> draggingProperty k then False else velocityIsInitial k)\<rparr>"
  by (simp add: set_dragging_def draggingListener_def velocityProperty_set_def)

lemma set_parametricSpeed_eq:
  "set_parametricSpeed v k = k\<lparr>
     parametricSpeedProperty := v,
     directionProperty :=
       (if v = parametricSpeedProperty k then directionProperty k
        else if v > 0.01 then (if onTopSideOfTrackProperty k then ''right'' else ''left'')
        else if v < - 0.01 then (if onTopSideOfTrackProperty k then ''left'' else ''right'')
        else directionProperty k)\<rparr>"
  by (simp add: set_parametricSpeed_def parametricSpeedListener_def Let_def)

lemma set_mass_eq:
  "set_mass v k = k\<lparr>
     massProperty := v,
     kineticEnergyProperty :=
       (if v = massProperty k then kineticEnergyProperty k
        else 0.5 * v * magnitudeSquared (velocityProperty k)),
     potentialEnergyProperty :=
       (if v = massProperty k then potentialEnergyProperty k
        else - v * (vec_y (positionProperty k) - referenceHeightProperty k) * gravityProperty k),
     totalEnergyProperty :=
       (if v = massProperty k then totalEnergyProperty k
        else 0.5 * v * magnitudeSquared (velocityProperty k)
             + - v * (vec_y (positionProperty k) - referenceHeightProperty k) * gravityProperty k
             + thermalEnergyProperty k)\<rparr>"
  by (simp add: set_mass_def updateEnergy_eq gravityProperty_def)

text \<open>The constructed skater, \<open>reset\<close> and the two partial resets as records.\<close>

lemma Skater_new_eq:
  "Skater_new m r =
     \<lparr> massRange = r, defaultMass = m,
       trackProperty = None, parametricPositionProperty = Some 0,
       parametricSpeedProperty = 0, onTopSideOfTrackProperty = True,
       gravityMagnitudeProperty = 9.8, referenceHeightProperty = 0,
       positionProperty = Vector2 3.5 0, massProperty = m,
       directionProperty = ''left'', velocityProperty = Vector2 0 0,
       draggingProperty = False, kineticEnergyProperty = 0,
       potentialEnergyProperty = 0, thermalEnergyProperty = 0,
       totalEnergyProperty = 0, angleProperty = 0,
       startingPositionProperty = Vector2 3.5 0, startingUProperty = Some 0,
       startingUpProperty = True, startingTrackProperty = None,
       headPositionProperty =
         Vector2 (3.5 + linear (range_min r) (range_max r) 1.65 2.4 m * cos (0 - pi / 2))
                 (0 - linear (range_min r) (range_max r) 1.65 2.4 m * sin (0 - pi / 2)),
       startingTrackControlPointSources = None, startingAngle = None,
       positionInitial = Vector2 3.5 0, positionIsInitial = True,
       velocityInitial = Vector2 0 0, velocityIsInitial = True \<rparr>"
  by (simp add: Skater_new_def Let_def updateEnergy_eq draggingListener_def
      parametricSpeedListener_def getHeadPosition_def magnitudeSquared_def gravityProperty_def)

lemma reset_eq:
  "reset k =
     emit_updated (updateEnergy ((Skater_new (defaultMass k) (massRange k))\<lparr>
        positionProperty := positionInitial k,
        velocityProperty := velocityInitial k,
        startingTrackControlPointSources := startingTrackControlPointSources k,
        startingAngle := startingAngle k,
        positionInitial := positionInitial k,
        velocityInitial := velocityInitial k\<rparr>))"
  by (simp add: reset_def Skater_new_eq headPositionProperty_reset_def Let_def set_mass_eq
      positionProperty_reset_def velocityProperty_reset_def
      updateEnergy_eq emit_updated_eq set_parametricSpeed_eq set_dragging_eq
      getHeadPosition_def magnitudeSquared_def gravityProperty_def)

lemma returnToInitialPosition_eq:
  "returnToInitialPosition k =
     set_mass (massProperty k)
       (emit_updated (updateEnergy ((Skater_new (defaultMass k) (massRange k))\<lparr>
          positionProperty := positionInitial k,
          velocityProperty := velocityInitial k,
          startingTrackControlPointSources := startingTrackControlPointSources k,
          startingAngle := startingAngle k,
          positionInitial := positionInitial k,
          velocityInitial := velocityInitial k\<rparr>)))"
  by (simp add: returnToInitialPosition_def reset_eq Let_def)

lemma resetPosition_eq:
  "resetPosition k =
     emit_updated (updateEnergy ((Skater_new (defaultMass k) (massRange k))\<lparr>
        massProperty := massProperty k,
        referenceHeightProperty := referenceHeightProperty k,
        positionProperty := positionInitial k,
        velocityProperty := velocityInitial k,
        startingTrackControlPointSources := startingTrackControlPointSources k,
        startingAngle := startingAngle k,
        positionInitial := positionInitial k,
        velocityInitial := velocityInitial k\<rparr>))"
  by (simp add: resetPosition_def Skater_new_eq headPositionProperty_reset_def Let_def set_mass_eq
      positionProperty_reset_def velocityProperty_reset_def
      updateEnergy_eq emit_updated_eq set_parametricSpeed_eq set_dragging_eq
      getHeadPosition_def magnitudeSquared_def gravityProperty_def)

text \<open>When the vectors that the two properties were constructed with still have the
  contents they were constructed with, the resets give the constructor's values.\<close>

lemma reset_intact:
  assumes "positionInitial k = Vector2 3.5 0" and "velocityInitial k = Vector2 0 0"
  shows "reset k = (Skater_new (defaultMass k) (massRange k))\<lparr>
     startingTrackControlPointSources := startingTrackControlPointSources k,
     startingAngle := startingAngle k\<rparr>"
  using assms
  by (simp add: reset_eq Skater_new_eq updateEnergy_eq emit_updated_eq
      getHeadPosition_def magnitudeSquared_def gravityProperty_def)

lemma returnToInitialPosition_intact:
  assumes "positionInitial k = Vector2 3.5 0" and "velocityInitial k = Vector2 0 0"
  shows "returnToInitialPosition k = (Skater_new (defaultMass k) (massRange k))\<lparr>
     massProperty := massProperty k,
     startingTrackControlPointSources := startingTrackControlPointSources k,
     startingAngle := startingAngle k\<rparr>"
  using assms
  by (simp add: returnToInitialPosition_eq Skater_new_eq updateEnergy_eq emit_updated_eq
      set_mass_eq getHeadPosition_def magnitudeSquared_def gravityProperty_def)

lemma resetPosition_intact:
  assumes "positionInitial k = Vector2 3.5 0" and "velocityInitial k = Vector2 0 0"
  shows "resetPosition k =
     emit_updated (updateEnergy ((Skater_new (defaultMass k) (massRange k))\<lparr>
        massProperty := massProperty k,
        referenceHeightProperty := referenceHeightProperty k,
        startingTrackControlPointSources := startingTrackControlPointSources k,
        startingAngle := startingAngle k\<rparr>))"
  using assms
  by (simp add: resetPosition_eq Skater_new_eq updateEnergy_eq emit_updated_eq
      getHeadPosition_def magnitudeSquared_def gravityProperty_def)
section \<open>Comparing control points\<close>

declare arrayEquals_loop.simps [simp del]

lemma arrayEquals_loop_iff:
  "arrayEquals_loop a b i \<longleftrightarrow> (\<forall>j. i \<le> j \<and> j < length a \<longrightarrow> equals (a ! j) (b ! j))"
proof (induction a b i rule: arrayEquals_loop.induct)
  case (1 a b i)
  show ?case
  proof (cases "i < length a")
    case False
    then show ?thesis by (auto simp: arrayEquals_loop.simps [of a b i])
  next
    case True
    show ?thesis
    proof (cases "equals (a ! i) (b ! i)")
      case False
      with True show ?thesis
        by (auto simp: arrayEquals_loop.simps [of a b i])
    next
      case e: True
      have "arrayEquals_loop a b i = arrayEquals_loop a b (i + 1)"
        using True e by (simp add: arrayEquals_loop.simps [of a b i])
      also have "\<dots> \<longleftrightarrow> (\<forall>j. i + 1 \<le> j \<and> j < length a \<longrightarrow> equals (a ! j) (b ! j))"
        using "1.IH" True e by simp
      also have "\<dots> \<longleftrightarrow> (\<forall>j. i \<le> j \<and> j < length a \<longrightarrow> equals (a ! j) (b ! j))"
      proof -
        have "j = i \<or> i + 1 \<le> j" if "i \<le> j" for j
          using that by arith
        then show ?thesis using e by (metis add_leD1)
      qed
      finally show ?thesis .
    qed
  qed
qed

lemma arrayEquals_iff: "arrayEquals a b \<longleftrightarrow> list_all2 equals a b"
  by (auto simp: arrayEquals_def arrayEquals_loop_iff list_all2_conv_all_nth)

lemma onStartingTrack_eq:
  "startingTrackProperty k \<noteq> None \<longrightarrow> startingTrackControlPointSources k \<noteq> None \<Longrightarrow>
   onStartingTrack tracks k = Inr (same_unchanged_track tracks k)"
  by (auto simp: onStartingTrack_def same_unchanged_track_def arrayEquals_iff
      split: option.splits)

section \<open>A construction appends one object\<close>

lemma setState_fresh:
  "setState ea (h @ [x]) (length h) src ov = Inr (r, h') \<Longrightarrow>
   r = length h \<and> (\<exists>n. h' = h @ [n]
     \<and> thermalEnergy n =
         getValue (ov_thermalEnergy (case ov of None \<Rightarrow> EMPTY_OBJECT | Some o' \<Rightarrow> o'))
           (thermalEnergy (source_fields (h @ [x]) src))
     \<and> mass n =
         getValue (ov_mass (case ov of None \<Rightarrow> EMPTY_OBJECT | Some o' \<Rightarrow> o'))
           (mass (source_fields (h @ [x]) src))
     \<and> (ea \<longrightarrow> 0 \<le> thermalEnergy n))"
  by (auto simp: setState_def Let_def split: if_splits)

lemma update_result:
  assumes "update ea h this ov = Inr (r, h')"
  shows "this < length h \<and> r = length h
         \<and> (\<exists>n. h' = h @ [n] \<and> (ea \<longrightarrow> 0 \<le> thermalEnergy n)
              \<and> mass n = getValue (ov_mass (case ov of None \<Rightarrow> EMPTY_OBJECT | Some o' \<Rightarrow> o'))
                            (mass (h ! this)))"
proof -
  from assms have new: "SkaterState_new ea h (FromState this) ov = Inr (r, h')"
    by (auto simp: update_def split: sum.splits)
  then have lt: "this < length h"
    by (auto simp: SkaterState_new_def split: if_splits)
  with new have "setState ea (h @ [fresh_object]) (length h) (FromState this) ov = Inr (r, h')"
    by (simp add: SkaterState_new_def)
  from setState_fresh [OF this] lt show ?thesis
    by (auto simp: source_fields_def nth_append)
qed

lemma update_total:
  assumes "this < length h"
    and "ea \<longrightarrow> 0 \<le> getValue (ov_thermalEnergy (case ov of None \<Rightarrow> EMPTY_OBJECT | Some o' \<Rightarrow> o'))
                        (thermalEnergy (h ! this))"
  shows "\<exists>n. update ea h this ov = Inr (length h, h @ [n])"
  using assms
  by (auto simp: update_def SkaterState_new_def setState_def Let_def source_fields_def
      nth_append)

section \<open>Every transform appends one object\<close>

text \<open>What a successful call returns: the receiver is in the store, the result is the
  next reference, and the store has grown by one object, which passed the checks.
  The mass of the new object is that of the receiver unless the call is an
  \<open>update\<close> that names the mass.\<close>

lemma call_result:
  assumes "call ea h this t = Inr (state, h')"
  shows "this < length h \<and> state = length h
         \<and> (\<exists>n. h' = h @ [n] \<and> (ea \<longrightarrow> 0 \<le> thermalEnergy n)
              \<and> (\<not> overrides_mass (Transform this t) \<longrightarrow> mass n = mass (h ! this)))"
proof (cases "this < length h")
  case False
  with assms show ?thesis
    by (cases t)
      (simp_all add: update_def updateTrackUD_def updateUUDVelocityPosition_def
        updatePositionAngleUpVelocity_def updateThermalEnergy_def updateUPosition_def
        switchToGround_def strikeGround_def copy_def leaveTrack_def updatePosition_def
        updateUDVelocity_def continueFreeFall_def attachToTrack_def new_dangling
        split: if_splits)
next
  case True
  show ?thesis
  proof (cases t)
    case (Update ov)
    with assms have u: "update ea h this ov = Inr (state, h')" by simp
    show ?thesis
    proof (cases ov)
      case None
      with update_result [OF u] show ?thesis
        by (auto simp: EMPTY_OBJECT_def)
    next
      case (Some o')
      with update_result [OF u] Update show ?thesis
        by (cases "ov_mass o'") auto
    qed
  qed (use assms True in \<open>auto simp: updateTrackUD_eq updateUUDVelocityPosition_eq
        updatePositionAngleUpVelocity_eq updateThermalEnergy_eq updateUPosition_eq
        switchToGround_eq strikeGround_eq copy_eq leaveTrack_eq updatePosition_eq
        updateUDVelocity_eq continueFreeFall_eq attachToTrack_eq split: if_splits\<close>)
qed

lemma call_total:
  assumes "this < length h" and "ea \<longrightarrow> assertions_pass h this t"
  shows "\<exists>n. call ea h this t = Inr (length h, h @ [n])"
proof (cases t)
  case (Update ov)
  with assms update_total [of this h ea ov] show ?thesis by simp
qed (use assms in \<open>auto simp: updateTrackUD_eq updateUUDVelocityPosition_eq
        updatePositionAngleUpVelocity_eq updateThermalEnergy_eq updateUPosition_eq
        switchToGround_eq strikeGround_eq copy_eq leaveTrack_eq updatePosition_eq
        updateUDVelocity_eq continueFreeFall_eq attachToTrack_eq\<close>)

section \<open>What each command does to the mass, the thermal energy and the drag\<close>












section \<open>Invariants of a run\<close>


section \<open>The release snapshot\<close>

text \<open>In every configuration of a run, a skater with a starting track also has the
  control-point sources and the angle that \<open>released\<close> stored with it: the two
  reads of \<open>returnSkater\<close> that could find an undefined field do not, once a track
  was recorded.\<close>

lemma snapshot_fields:
  "snapshot_ok (clearThermal k) = snapshot_ok k"
  "snapshot_ok (updateEnergy k) = snapshot_ok k"
  "snapshot_ok (set_mass v k) = snapshot_ok k"
  "snapshot_ok (reset k)"
  "snapshot_ok (resetPosition k)"
  "snapshot_ok (returnToInitialPosition k)"
  "snapshot_ok (released tracks t u k)"
  "snapshot_ok (drag tracks c p k) = snapshot_ok k"
  "snapshot_ok (start tracks c p k) = snapshot_ok k"
  "snapshot_ok (emit_updated (setToSkater tracks s k)) = snapshot_ok k"
  "snapshot_ok (k\<lparr>gravityMagnitudeProperty := v\<rparr>) = snapshot_ok k"
  "snapshot_ok (k\<lparr>referenceHeightProperty := v\<rparr>) = snapshot_ok k"
proof -
  show "snapshot_ok (clearThermal k) = snapshot_ok k"
    by (simp add: snapshot_ok_def clearThermal_def updateEnergy_eq)
  show "snapshot_ok (updateEnergy k) = snapshot_ok k"
    by (simp add: snapshot_ok_def updateEnergy_eq)
  show "snapshot_ok (set_mass v k) = snapshot_ok k"
    by (simp add: snapshot_ok_def set_mass_eq)
  show "snapshot_ok (reset k)"
    by (simp add: snapshot_ok_def reset_eq Skater_new_eq updateEnergy_eq emit_updated_eq)
  show "snapshot_ok (resetPosition k)"
    by (simp add: snapshot_ok_def resetPosition_eq Skater_new_eq updateEnergy_eq emit_updated_eq)
  show "snapshot_ok (returnToInitialPosition k)"
    by (simp add: snapshot_ok_def returnToInitialPosition_eq Skater_new_eq updateEnergy_eq
        emit_updated_eq set_mass_eq)
  show "snapshot_ok (released tracks t u k)"
    by (cases t)
      (simp_all add: snapshot_ok_def released_def Let_def updateEnergy_eq emit_updated_eq
        set_parametricSpeed_eq set_dragging_eq positionProperty_set_def velocityProperty_set_def)
  show d: "snapshot_ok (drag tracks c p k) = snapshot_ok k" for k
    by (cases c) (auto simp: snapshot_ok_def drag_def Let_def updateEnergy_eq emit_updated_eq
        positionProperty_set_def)
  show "snapshot_ok (start tracks c p k) = snapshot_ok k"
    by (simp add: start_def Let_def d) (simp add: snapshot_ok_def set_dragging_eq)
  show "snapshot_ok (emit_updated (setToSkater tracks s k)) = snapshot_ok k"
    by (simp add: snapshot_ok_def setToSkater_def Let_def updateEnergy_eq emit_updated_eq
        set_parametricSpeed_eq positionProperty_write_def velocityProperty_write_def)
  show "snapshot_ok (k\<lparr>gravityMagnitudeProperty := v\<rparr>) = snapshot_ok k"
    "snapshot_ok (k\<lparr>referenceHeightProperty := v\<rparr>) = snapshot_ok k"
    by (simp_all add: snapshot_ok_def)
qed

lemma returnSkater_snapshot:
  assumes "returnSkater tracks k = Inr k'" and "snapshot_ok k"
  shows "snapshot_ok k'"
  using assms
  by (auto simp: snapshot_ok_def returnSkater_def Let_def clearThermal_def updateEnergy_eq
      emit_updated_eq set_parametricSpeed_eq vector_defs
      split: sum.splits option.splits if_splits)

lemma exec_snapshot_ok:
  assumes "exec ea e c = Inr c'" and "snapshot_ok (fst c)"
  shows "snapshot_ok (fst c')"
proof -
  obtain k h where c: "c = (k, h)" by (cases c)
  show ?thesis
  proof (cases e)
    case (ReturnSkater tracks)
    with assms c obtain k' where "returnSkater tracks k = Inr k'" "c' = (k', h)"
      by (auto split: sum.splits)
    with assms c returnSkater_snapshot [of tracks k k'] show ?thesis by simp
  qed (use assms c in \<open>auto simp: snapshot_fields split: if_splits sum.splits\<close>)
qed

lemma run_snapshot_ok:
  "run ea evs c = Inr c' \<Longrightarrow> snapshot_ok (fst c) \<Longrightarrow> snapshot_ok (fst c')"
proof (induction evs arbitrary: c)
  case Nil
  then show ?case by simp
next
  case (Cons e evs)
  from Cons.prems obtain c1 where e: "exec ea e c = Inr c1" and r: "run ea evs c1 = Inr c'"
    by (auto split: sum.splits)
  show ?case
    by (rule Cons.IH [OF r exec_snapshot_ok [OF e Cons.prems(2)]])
qed

lemma reachable_snapshot_ok:
  "run ea evs (Skater_new m r, []) = Inr (k, h) \<Longrightarrow> snapshot_ok k"
  using run_snapshot_ok [of ea evs "(Skater_new m r, [])" "(k, h)"]
  by (simp add: snapshot_ok_def Skater_new_eq)

section \<open>JavaScript numbers: the order\<close>

lemma greaterEq_js_zero [simp]: "greaterEq_js (Finite 0) (Finite 0)"
  by (simp add: greaterEq_js_def)

lemma finite_js_zero [simp]: "finite_js (Vector2_js (Finite 0) (Finite 0))"
  by (simp add: finite_js_def)


section \<open>JavaScript numbers: what a construction and a transform return\<close>




lemma assign_js_last [simp]: "assign_js (h @ [s]) (length h) f = h @ [f s]"
  by (simp add: assign_js_def)




















section \<open>JavaScript numbers: what each command does to the mass, the thermal energy and the velocity\<close>
























section \<open>JavaScript numbers: invariants of a run\<close>





section \<open>JavaScript numbers: the sample run\<close>





section \<open>Energy bookkeeping\<close>

text \<open>
  Claim C1. The energies are functions of the fields alone: for every state,
  \<open>getKineticEnergy\<close> is \<open>1/2 m (vx\<^sup>2 + vy\<^sup>2)\<close>, \<open>getPotentialEnergy\<close> is
  \<open>- m g (y - referenceHeight)\<close> and \<open>getTotalEnergy\<close> is their sum plus the thermal
  energy. For every skater, \<open>updateEnergy\<close> changes the three energy fields and
  nothing else, and sets them to the same expressions of the skater's mass,
  velocity, position, gravity, reference height and thermal energy. Gravity is
  the negated magnitude: it is what a state reads from the skater, it is not
  positive when the magnitude is not negative, and with assertions enabled the
  derivation returns no other value. The older skater of the Basics
  simulation has no reference height, and its \<open>updateEnergy\<close> gives the same
  expressions with the height taken from the ground.
\<close>

theorem energy_bookkeeping:
  "getKineticEnergy s = 1 / 2 * mass s * ((velocityX s)\<^sup>2 + (velocityY s)\<^sup>2)
   \<and> getPotentialEnergy s = - mass s * gravity s * (positionY s - referenceHeight s)
   \<and> getTotalEnergy s = getKineticEnergy s + getPotentialEnergy s + thermalEnergy s
   \<and> updateEnergy k = k\<lparr>
        kineticEnergyProperty :=
          1 / 2 * massProperty k
            * ((vec_x (velocityProperty k))\<^sup>2 + (vec_y (velocityProperty k))\<^sup>2),
        potentialEnergyProperty :=
          - massProperty k * gravityProperty k
            * (vec_y (positionProperty k) - referenceHeightProperty k),
        totalEnergyProperty :=
          1 / 2 * massProperty k
            * ((vec_x (velocityProperty k))\<^sup>2 + (vec_y (velocityProperty k))\<^sup>2)
          + - massProperty k * gravityProperty k
            * (vec_y (positionProperty k) - referenceHeightProperty k)
          + thermalEnergyProperty k\<rparr>
   \<and> updateEnergy_basics k = k\<lparr>
        kineticEnergyProperty :=
          1 / 2 * massProperty k
            * ((vec_x (velocityProperty k))\<^sup>2 + (vec_y (velocityProperty k))\<^sup>2),
        potentialEnergyProperty :=
          - massProperty k * gravityProperty k * (vec_y (positionProperty k) - 0),
        totalEnergyProperty :=
          1 / 2 * massProperty k
            * ((vec_x (velocityProperty k))\<^sup>2 + (vec_y (velocityProperty k))\<^sup>2)
          + - massProperty k * gravityProperty k * (vec_y (positionProperty k) - 0)
          + thermalEnergyProperty k\<rparr>
   \<and> gravityProperty k = - gravityMagnitudeProperty k
   \<and> gravity (source_fields h (FromSkater k)) = gravityProperty k
   \<and> (0 \<le> gravityMagnitudeProperty k \<longrightarrow> gravityProperty k \<le> 0)
   \<and> (gravityDerivation True (gravityMagnitudeProperty k) = Inr g \<longrightarrow>
        g = gravityProperty k \<and> g \<le> 0)"
  by (auto simp: getKineticEnergy_def getPotentialEnergy_def getTotalEnergy_def
      updateEnergy_def updateEnergy_basics_def gravityProperty_def magnitudeSquared_def
      power2_eq_square source_fields_def Let_def gravityDerivation_def algebra_simps
      split: if_splits)

theorem energy_bookkeeping_witness:
  "getKineticEnergy falling = 750
   \<and> getPotentialEnergy falling = - 147
   \<and> getTotalEnergy falling = 608
   \<and> 0 \<le> gravityMagnitudeProperty sampleSkater
   \<and> gravityProperty sampleSkater = - 98 / 10
   \<and> gravityProperty sampleSkater \<le> 0
   \<and> gravityDerivation True (gravityMagnitudeProperty sampleSkater) = Inr (- 98 / 10)"
proof -
  have m: "gravityMagnitudeProperty sampleSkater = 98 / 10"
    by (simp add: sampleSkater_def Skater_new_def Let_def updateEnergy_def
        draggingListener_def parametricSpeedListener_def)
  have f: "mass falling = 60" "velocityX falling = 3" "velocityY falling = - 4"
    "gravity falling = - 98 / 10" "positionY falling = - 1 / 4" "referenceHeight falling = 0"
    "thermalEnergy falling = 5"
    by (simp_all add: falling_def)
  have d: "gravityDerivation True (gravityMagnitudeProperty sampleSkater) = Inr (- 98 / 10)"
    by (simp add: m gravityDerivation_def)
  note t = energy_bookkeeping [of falling sampleSkater "[]" "- 98 / 10"]
  from t have ke: "getKineticEnergy falling = 750"
    by (simp only: f) simp
  from t have pe: "getPotentialEnergy falling = - 147"
    by (simp only: f) simp
  from t ke pe have te: "getTotalEnergy falling = 608"
    by (simp only: f) simp
  from t have g: "gravityProperty sampleSkater = - gravityMagnitudeProperty sampleSkater"
    by blast
  from t m have "gravityProperty sampleSkater \<le> 0"
    by simp
  with ke pe te g m d show ?thesis
    by simp
qed

section \<open>Leaving the track\<close>

text \<open>
  Claim C4. For every state \<open>s\<close> of the store (with assertions enabled, one whose
  thermal energy is not negative, as every state that a run puts in the store
  is), \<open>s.leaveTrack()\<close> returns a new object whose
  track is null and whose parametric speed is 0; position, velocity, thermal
  energy, mass, gravity, reference height, angle, side of the track, parametric
  position and dragging flag are those of \<open>s\<close>.
\<close>

theorem leaveTrack_keeps_motion:
  assumes "this < length h" and "ea \<longrightarrow> 0 \<le> thermalEnergy (h ! this)"
  shows "leaveTrack ea h this =
           Inr (length h, h @ [(h ! this)\<lparr>parametricSpeed := 0, track := None\<rparr>])
         \<and> (let s = h ! this; s' = (h @ [(h ! this)\<lparr>parametricSpeed := 0, track := None\<rparr>]) ! length h
            in track s' = None \<and> parametricSpeed s' = 0
               \<and> positionX s' = positionX s \<and> positionY s' = positionY s
               \<and> velocityX s' = velocityX s \<and> velocityY s' = velocityY s
               \<and> thermalEnergy s' = thermalEnergy s \<and> mass s' = mass s
               \<and> gravity s' = gravity s \<and> referenceHeight s' = referenceHeight s
               \<and> angle s' = angle s \<and> onTopSideOfTrack s' = onTopSideOfTrack s
               \<and> parametricPosition s' = parametricPosition s \<and> dragging s' = dragging s)"
  using assms by (simp add: leaveTrack_eq Let_def)

theorem leaveTrack_keeps_motion_witness:
  "(0::nat) < length [riding] \<and> 0 \<le> thermalEnergy ([riding] ! 0)
   \<and> leaveTrack True [riding] 0 = Inr (1, [riding, riding\<lparr>parametricSpeed := 0, track := None\<rparr>])
   \<and> velocityX (riding\<lparr>parametricSpeed := 0, track := None\<rparr>) = 1"
proof -
  have a: "(0::nat) < length [riding]" by simp
  have b: "True \<longrightarrow> 0 \<le> thermalEnergy ([riding] ! 0)" by (simp add: riding_def)
  show ?thesis
    using leaveTrack_keeps_motion [OF a b] b by (simp add: riding_def)
qed

section \<open>Copying a state\<close>

text \<open>
  Claim C6. For every state \<open>s\<close> of the store (with assertions enabled, one whose
  thermal energy is not negative), \<open>s.copy()\<close> returns a new object all of
  whose fields are those of \<open>s\<close>, and so its total energy is that of \<open>s\<close>.
\<close>

theorem copy_round_trip:
  assumes "this < length h" and "ea \<longrightarrow> 0 \<le> thermalEnergy (h ! this)"
  shows "copy ea h this = Inr (length h, h @ [h ! this])
         \<and> (h @ [h ! this]) ! length h = h ! this
         \<and> getTotalEnergy ((h @ [h ! this]) ! length h) = getTotalEnergy (h ! this)"
  using assms by (simp add: copy_eq)

theorem copy_round_trip_witness:
  "(0::nat) < length [falling] \<and> 0 \<le> thermalEnergy ([falling] ! 0)
   \<and> copy True [falling] 0 = Inr (1, [falling, falling])
   \<and> getTotalEnergy ([falling, falling] ! 1) = getTotalEnergy falling"
proof -
  have a: "(0::nat) < length [falling]" by simp
  have b: "True \<longrightarrow> 0 \<le> thermalEnergy ([falling] ! 0)" by (simp add: falling_def)
  show ?thesis
    using copy_round_trip [OF a b] b by simp
qed

section \<open>The facing direction\<close>

text \<open>
  Claim C10. When the parametric speed of the skater is given a new value, the
  direction becomes \<open>right\<close> if the new speed is above 0.01 and the skater is on top
  of the track (\<open>left\<close> on the underside), becomes \<open>left\<close> if it is below \<open>-0.01\<close> and
  the skater is on top (\<open>right\<close> on the underside), and stays as it is when the
  absolute value of the new speed is at most 0.01. The assignment changes the speed
  and the direction only.
\<close>

theorem direction_hysteresis:
  assumes "v \<noteq> parametricSpeedProperty k"
  shows "(v > 0.01 \<longrightarrow> directionProperty (set_parametricSpeed v k) =
            (if onTopSideOfTrackProperty k then ''right'' else ''left''))
       \<and> (v < - 0.01 \<longrightarrow> directionProperty (set_parametricSpeed v k) =
            (if onTopSideOfTrackProperty k then ''left'' else ''right''))
       \<and> (\<bar>v\<bar> \<le> 0.01 \<longrightarrow> directionProperty (set_parametricSpeed v k) = directionProperty k)
       \<and> set_parametricSpeed v k =
            k\<lparr>parametricSpeedProperty := v,
              directionProperty := directionProperty (set_parametricSpeed v k)\<rparr>"
  using assms by (simp add: set_parametricSpeed_eq)

theorem direction_hysteresis_witness:
  "2 \<noteq> parametricSpeedProperty sampleSkater \<and> (2::real) > 0.01
   \<and> onTopSideOfTrackProperty sampleSkater
   \<and> directionProperty sampleSkater = ''left''
   \<and> directionProperty (set_parametricSpeed 2 sampleSkater) = ''right''
   \<and> - 2 \<noteq> parametricSpeedProperty (set_parametricSpeed 2 sampleSkater) \<and> (- 2::real) < - 0.01
   \<and> directionProperty (set_parametricSpeed (- 2) (set_parametricSpeed 2 sampleSkater)) = ''left''
   \<and> 0.005 \<noteq> parametricSpeedProperty (set_parametricSpeed 2 sampleSkater)
   \<and> \<bar>0.005::real\<bar> \<le> 0.01
   \<and> directionProperty (set_parametricSpeed 0.005 (set_parametricSpeed 2 sampleSkater)) = ''right''"
proof -
  have s: "parametricSpeedProperty sampleSkater = 0" "onTopSideOfTrackProperty sampleSkater"
    "directionProperty sampleSkater = ''left''"
    by (simp_all add: sampleSkater_def Skater_new_def Let_def updateEnergy_eq
        draggingListener_def parametricSpeedListener_def)
  have a: "2 \<noteq> parametricSpeedProperty sampleSkater" by (simp add: s)
  have t: "parametricSpeedProperty (set_parametricSpeed 2 sampleSkater) = 2"
    "onTopSideOfTrackProperty (set_parametricSpeed 2 sampleSkater)"
    by (simp_all add: set_parametricSpeed_eq s)
  have b: "- 2 \<noteq> parametricSpeedProperty (set_parametricSpeed 2 sampleSkater)"
    and c: "0.005 \<noteq> parametricSpeedProperty (set_parametricSpeed 2 sampleSkater)"
    by (simp_all add: t)
  show ?thesis
    using direction_hysteresis [OF a] direction_hysteresis [OF b] direction_hysteresis [OF c]
    by (simp add: s t)
qed

section \<open>Striking the ground\<close>




section \<open>Returning the skater\<close>

text \<open>
  Claim C7. Let the skater hold a release snapshot: a starting angle, and the
  control-point sources of the starting track if there is one (as every skater
  that a run reaches does once a starting track is recorded). \<open>returnSkater\<close>
  then returns, with the position at the starting position, the velocity zero and
  the angle of the snapshot. If a starting track was recorded, the skater is on
  that same track and the track's control-point sources are element-wise equal to
  those captured at release, the skater stays on the track, with the parametric
  position and the side of the track of the snapshot and the parametric speed 0.
  Otherwise its track is null.
\<close>

theorem returnSkater_restores:
  assumes "startingAngle k = Some a"
    and "startingTrackProperty k \<noteq> None \<longrightarrow> startingTrackControlPointSources k \<noteq> None"
  shows "\<exists>k'. returnSkater tracks k = Inr k'
           \<and> positionProperty k' = startingPositionProperty k
           \<and> velocityProperty k' = Vector2 0 0
           \<and> angleProperty k' = a
           \<and> (if same_unchanged_track tracks k
              then trackProperty k' = trackProperty k
                 \<and> trackProperty k' = startingTrackProperty k
                 \<and> parametricPositionProperty k' = startingUProperty k
                 \<and> onTopSideOfTrackProperty k' = startingUpProperty k
                 \<and> parametricSpeedProperty k' = 0
              else trackProperty k' = None)"
proof -
  have same: "same_unchanged_track tracks k \<Longrightarrow> trackProperty k = startingTrackProperty k"
    by (auto simp: same_unchanged_track_def split: option.splits)
  show ?thesis
    using assms same
    by (simp add: returnSkater_def onStartingTrack_eq Let_def clearThermal_def
        updateEnergy_eq emit_updated_eq set_parametricSpeed_eq vector_defs)
qed

theorem returnSkater_restores_witness:
  "startingAngle movedSkater = Some 0
   \<and> startingTrackProperty movedSkater = Some 7
   \<and> startingTrackControlPointSources movedSkater
       = Some [Vector2 0 4, Vector2 2 3, Vector2 4 4]
   \<and> same_unchanged_track sampleTracks movedSkater
   \<and> \<not> same_unchanged_track editedTracks movedSkater
   \<and> parametricSpeedProperty movedSkater = 2
   \<and> positionProperty movedSkater = Vector2 2 3
   \<and> velocityProperty movedSkater = Vector2 1 (- 1)
   \<and> (\<exists>k'. returnSkater sampleTracks movedSkater = Inr k'
         \<and> positionProperty k' = Vector2 2 3 \<and> velocityProperty k' = Vector2 0 0
         \<and> angleProperty k' = 0 \<and> trackProperty k' = Some 7
         \<and> parametricPositionProperty k' = Some (1 / 4)
         \<and> onTopSideOfTrackProperty k' \<and> parametricSpeedProperty k' = 0)
   \<and> (\<exists>k'. returnSkater editedTracks movedSkater = Inr k'
         \<and> positionProperty k' = Vector2 2 3 \<and> velocityProperty k' = Vector2 0 0
         \<and> angleProperty k' = 0 \<and> trackProperty k' = None)"
proof -
  have r: "startingAngle releasedSkater = Some 0"
    "startingTrackProperty releasedSkater = Some 7"
    "startingTrackControlPointSources releasedSkater
       = Some [Vector2 0 4, Vector2 2 3, Vector2 4 4]"
    "startingPositionProperty releasedSkater = Vector2 2 3"
    "startingUProperty releasedSkater = Some (1 / 4)"
    "startingUpProperty releasedSkater"
    "parametricSpeedProperty releasedSkater = 0"
    by (simp_all add: releasedSkater_def released_def sampleSkater_def Skater_new_def
        sampleTracks_def Let_def updateEnergy_eq emit_updated_eq set_parametricSpeed_eq
        set_dragging_eq draggingListener_def parametricSpeedListener_def vector_defs)
  have m: "startingAngle movedSkater = Some 0"
    "startingTrackProperty movedSkater = Some 7"
    "startingTrackControlPointSources movedSkater
       = Some [Vector2 0 4, Vector2 2 3, Vector2 4 4]"
    "startingPositionProperty movedSkater = Vector2 2 3"
    "startingUProperty movedSkater = Some (1 / 4)"
    "startingUpProperty movedSkater"
    "trackProperty movedSkater = Some 7"
    "parametricSpeedProperty movedSkater = 2"
    "positionProperty movedSkater = Vector2 2 3"
    "velocityProperty movedSkater = Vector2 1 (- 1)"
    by (simp_all add: movedSkater_def setToSkater_def riding_def Let_def updateEnergy_eq
        set_parametricSpeed_eq vector_defs r)
  have s: "same_unchanged_track sampleTracks movedSkater"
    by (simp add: same_unchanged_track_def m sampleTracks_def equals_def)
  have e: "\<not> same_unchanged_track editedTracks movedSkater"
    by (simp add: same_unchanged_track_def m editedTracks_def sampleTracks_def equals_def)
  have a: "startingAngle movedSkater = Some 0" by (rule m)
  have b: "startingTrackProperty movedSkater \<noteq> None
             \<longrightarrow> startingTrackControlPointSources movedSkater \<noteq> None"
    by (simp add: m)
  show ?thesis
    using returnSkater_restores [OF a b, of sampleTracks]
      returnSkater_restores [OF a b, of editedTracks] s e
    by (simp add: m)
qed

section \<open>Resetting the position\<close>

text \<open>
  Claim C8, as amended. Take a skater for which the two vectors that
  \<open>positionProperty\<close> and \<open>velocityProperty\<close> were constructed with still hold
  \<open>(3.5, 0)\<close> and \<open>(0, 0)\<close>. \<open>returnToInitialPosition\<close> leaves it as the constructor made
  it, except for the mass, which keeps its value from before the call.
  \<open>resetPosition\<close> leaves it as the constructor made it, except for the mass and the
  reference height, which keep their values from before the call, and for the
  potential energy, the total energy and the head position, which are computed
  from them. Neither touches \<open>startingAngle\<close> and \<open>startingTrackControlPointSources\<close>,
  the two fields that only \<open>released\<close> writes.
\<close>

theorem reset_position_keeps:
  assumes "positionInitial k = Vector2 3.5 0" and "velocityInitial k = Vector2 0 0"
  shows "returnToInitialPosition k =
     (Skater_new (defaultMass k) (massRange k))\<lparr>
        massProperty := massProperty k,
        startingTrackControlPointSources := startingTrackControlPointSources k,
        startingAngle := startingAngle k\<rparr>
   \<and> resetPosition k =
     emit_updated (updateEnergy ((Skater_new (defaultMass k) (massRange k))\<lparr>
        massProperty := massProperty k,
        referenceHeightProperty := referenceHeightProperty k,
        startingTrackControlPointSources := startingTrackControlPointSources k,
        startingAngle := startingAngle k\<rparr>))
   \<and> massProperty (resetPosition k) = massProperty k
   \<and> referenceHeightProperty (resetPosition k) = referenceHeightProperty k
   \<and> kineticEnergyProperty (resetPosition k) = 0
   \<and> potentialEnergyProperty (resetPosition k) =
       - massProperty k * (0 - referenceHeightProperty k) * (- 9.8)
   \<and> totalEnergyProperty (resetPosition k) = potentialEnergyProperty (resetPosition k)
   \<and> headPositionProperty (resetPosition k) = getHeadPosition (resetPosition k)"
proof -
  note a = returnToInitialPosition_intact [OF assms]
  note b = resetPosition_intact [OF assms]
  have c: "massProperty (resetPosition k) = massProperty k
   \<and> referenceHeightProperty (resetPosition k) = referenceHeightProperty k
   \<and> kineticEnergyProperty (resetPosition k) = 0
   \<and> potentialEnergyProperty (resetPosition k) =
       - massProperty k * (0 - referenceHeightProperty k) * (- 9.8)
   \<and> totalEnergyProperty (resetPosition k) = potentialEnergyProperty (resetPosition k)
   \<and> headPositionProperty (resetPosition k) = getHeadPosition (resetPosition k)"
    by (simp add: b Skater_new_eq updateEnergy_eq emit_updated_eq magnitudeSquared_def
        gravityProperty_def getHeadPosition_def)
  from a b c show ?thesis by (simp only: simp_thms)
qed

text \<open>The sample skater released on a track and then moved by a commit: the release
  gave both properties new vectors, so the commit wrote those.\<close>

theorem reset_position_keeps_witness:
  "positionInitial movedSkater = Vector2 3.5 0
   \<and> velocityInitial movedSkater = Vector2 0 0
   \<and> positionProperty movedSkater = Vector2 2 3
   \<and> velocityProperty movedSkater = Vector2 1 (- 1)
   \<and> positionProperty (resetPosition movedSkater) = Vector2 3.5 0
   \<and> velocityProperty (resetPosition movedSkater) = Vector2 0 0
   \<and> massProperty (resetPosition movedSkater) = massProperty movedSkater
   \<and> kineticEnergyProperty (resetPosition movedSkater) = 0"
proof -
  have m: "positionInitial movedSkater = Vector2 3.5 0"
    "velocityInitial movedSkater = Vector2 0 0"
    "positionProperty movedSkater = Vector2 2 3"
    "velocityProperty movedSkater = Vector2 1 (- 1)"
    by (simp_all add: movedSkater_def releasedSkater_def sampleSkater_def Skater_new_eq
        released_def setToSkater_def Let_def set_dragging_eq set_parametricSpeed_eq
        updateEnergy_eq emit_updated_eq positionProperty_set_def velocityProperty_set_def
        positionProperty_write_def velocityProperty_write_def sampleTracks_def riding_def)
  note t = reset_position_keeps [OF m(1) m(2)]
  from t have r: "resetPosition movedSkater =
     emit_updated (updateEnergy ((Skater_new (defaultMass movedSkater) (massRange movedSkater))\<lparr>
        massProperty := massProperty movedSkater,
        referenceHeightProperty := referenceHeightProperty movedSkater,
        startingTrackControlPointSources := startingTrackControlPointSources movedSkater,
        startingAngle := startingAngle movedSkater\<rparr>))"
    by blast
  from t have e: "massProperty (resetPosition movedSkater) = massProperty movedSkater"
    "kineticEnergyProperty (resetPosition movedSkater) = 0"
    by blast+
  have p: "positionProperty (resetPosition movedSkater) = Vector2 3.5 0"
    "velocityProperty (resetPosition movedSkater) = Vector2 0 0"
    by (simp_all add: r Skater_new_eq updateEnergy_eq emit_updated_eq)
  from m e p show ?thesis by (simp only: simp_thms)
qed

text \<open>The claim as it was stated fails in two ways. For \<open>resetPosition\<close>: with the
  reference height raised to 2 before the call it is still 2 after it, where the
  constructor sets 0, and the potential energy is that of the raised reference,
  not 0. For both: on a skater that has not been dragged or released since it
  was constructed, a commit writes the position \<open>(1, -1/4)\<close> and the velocity
  \<open>(3, -4)\<close> into the vectors the properties were constructed with, and the reset of
  each property hands that vector back; the skater stays where the commit put it,
  with that velocity and its kinetic energy.\<close>

theorem reset_position_counterexample:
  "referenceHeightProperty raisedSkater = 2
   \<and> referenceHeightProperty (Skater_new 60 (Range 25 100)) = 0
   \<and> referenceHeightProperty (resetPosition raisedSkater) = 2
   \<and> potentialEnergyProperty (Skater_new 60 (Range 25 100)) = 0
   \<and> potentialEnergyProperty (resetPosition raisedSkater) = - 1176
   \<and> positionProperty (Skater_new 60 (Range 25 100)) = Vector2 3.5 0
   \<and> velocityProperty (Skater_new 60 (Range 25 100)) = Vector2 0 0
   \<and> kineticEnergyProperty (Skater_new 60 (Range 25 100)) = 0
   \<and> positionProperty (returnToInitialPosition (setToSkater sampleTracks falling sampleSkater))
       = Vector2 1 (- 1 / 4)
   \<and> velocityProperty (returnToInitialPosition (setToSkater sampleTracks falling sampleSkater))
       = Vector2 3 (- 4)
   \<and> kineticEnergyProperty (returnToInitialPosition (setToSkater sampleTracks falling sampleSkater))
       = 750
   \<and> positionProperty (resetPosition (setToSkater sampleTracks falling sampleSkater))
       = Vector2 1 (- 1 / 4)
   \<and> velocityProperty (resetPosition (setToSkater sampleTracks falling sampleSkater))
       = Vector2 3 (- 4)
   \<and> kineticEnergyProperty (resetPosition (setToSkater sampleTracks falling sampleSkater))
       = 750"
proof -
  have a: "referenceHeightProperty raisedSkater = 2
   \<and> referenceHeightProperty (Skater_new 60 (Range 25 100)) = 0
   \<and> referenceHeightProperty (resetPosition raisedSkater) = 2
   \<and> potentialEnergyProperty (Skater_new 60 (Range 25 100)) = 0
   \<and> potentialEnergyProperty (resetPosition raisedSkater) = - 1176
   \<and> positionProperty (Skater_new 60 (Range 25 100)) = Vector2 3.5 0
   \<and> velocityProperty (Skater_new 60 (Range 25 100)) = Vector2 0 0
   \<and> kineticEnergyProperty (Skater_new 60 (Range 25 100)) = 0"
    by (simp add: raisedSkater_def sampleSkater_def resetPosition_eq Skater_new_eq
        updateEnergy_eq emit_updated_eq magnitudeSquared_def gravityProperty_def)
  have s: "positionInitial (setToSkater sampleTracks falling sampleSkater) = Vector2 1 (- 1 / 4)"
    "velocityInitial (setToSkater sampleTracks falling sampleSkater) = Vector2 3 (- 4)"
    "massProperty (setToSkater sampleTracks falling sampleSkater) = 60"
    "defaultMass (setToSkater sampleTracks falling sampleSkater) = 60"
    "massRange (setToSkater sampleTracks falling sampleSkater) = Range 25 100"
    by (simp_all add: sampleSkater_def Skater_new_eq setToSkater_def Let_def
        set_parametricSpeed_eq updateEnergy_eq positionProperty_write_def
        velocityProperty_write_def falling_def)
  have b: "positionProperty (returnToInitialPosition (setToSkater sampleTracks falling sampleSkater))
       = Vector2 1 (- 1 / 4)
   \<and> velocityProperty (returnToInitialPosition (setToSkater sampleTracks falling sampleSkater))
       = Vector2 3 (- 4)
   \<and> kineticEnergyProperty (returnToInitialPosition (setToSkater sampleTracks falling sampleSkater))
       = 750"
    by (simp add: returnToInitialPosition_eq s Skater_new_eq updateEnergy_eq emit_updated_eq
        set_mass_eq magnitudeSquared_def)
  have c: "positionProperty (resetPosition (setToSkater sampleTracks falling sampleSkater))
       = Vector2 1 (- 1 / 4)
   \<and> velocityProperty (resetPosition (setToSkater sampleTracks falling sampleSkater))
       = Vector2 3 (- 4)
   \<and> kineticEnergyProperty (resetPosition (setToSkater sampleTracks falling sampleSkater))
       = 750"
    by (simp add: resetPosition_eq s Skater_new_eq updateEnergy_eq emit_updated_eq
        magnitudeSquared_def)
  from a b c show ?thesis by (simp only: simp_thms)
qed
section \<open>Transforms are pure\<close>

text \<open>
  Claim C5. For every state \<open>s\<close> of the store and every transform (\<open>update\<close>,
  \<open>updateTrackUD\<close>, \<open>updateUUDVelocityPosition\<close>, \<open>updatePositionAngleUpVelocity\<close>,
  \<open>updateThermalEnergy\<close>, \<open>updateUPosition\<close>, \<open>switchToGround\<close>, \<open>strikeGround\<close>, \<open>copy\<close>,
  \<open>leaveTrack\<close>, \<open>updatePosition\<close>, \<open>updateUDVelocity\<close>, \<open>continueFreeFall\<close>,
  \<open>attachToTrack\<close>), a call that returns gives a reference that was not in the store
  before, to a new object, and leaves every object that was in the store, the
  receiver among them, with the fields it had. The call does return when the
  checks it makes pass, or when assertions are disabled. (\<open>setState\<close> is not one of
  them: it is the initialiser that the constructor runs on the object it has just
  allocated, and it writes that object.)
\<close>

theorem transforms_are_pure:
  "(\<forall>state h'. call ea h this t = Inr (state, h') \<longrightarrow>
      this < length h \<and> state = length h \<and> state \<noteq> this
      \<and> length h' = Suc (length h) \<and> take (length h) h' = h \<and> h' ! this = h ! this)
   \<and> (this < length h \<and> (ea \<longrightarrow> assertions_pass h this t) \<longrightarrow>
      (\<exists>n. call ea h this t = Inr (length h, h @ [n])))"
proof -
  have "this < length h \<and> state = length h \<and> state \<noteq> this
        \<and> length h' = Suc (length h) \<and> take (length h) h' = h \<and> h' ! this = h ! this"
    if "call ea h this t = Inr (state, h')" for state h'
    using call_result [OF that] by (auto simp: nth_append)
  then show ?thesis
    using call_total [of this h ea t] by blast
qed

theorem transforms_are_pure_witness:
  "call True [riding] 0 (AttachToTrack 6 (Some 7) False (Some (1 / 2)) 3 1 1 2 2) =
     Inr (1, [riding, riding\<lparr>thermalEnergy := 6, track := Some 7, onTopSideOfTrack := False,
                parametricPosition := Some (1 / 2), parametricSpeed := 3, velocityX := 1,
                velocityY := 1, positionX := 2, positionY := 2\<rparr>])
   \<and> (0::nat) < length [riding]
   \<and> assertions_pass [riding] 0 (AttachToTrack 6 (Some 7) False (Some (1 / 2)) 3 1 1 2 2)
   \<and> (1::nat) = length [riding] \<and> (1::nat) \<noteq> 0
   \<and> take (length [riding])
        [riding, riding\<lparr>thermalEnergy := 6, track := Some 7, onTopSideOfTrack := False,
                parametricPosition := Some (1 / 2), parametricSpeed := 3, velocityX := 1,
                velocityY := 1, positionX := 2, positionY := 2\<rparr>] = [riding]"
proof -
  have a: "(0::nat) < length [riding]" by simp
  have c: "call True [riding] 0 (AttachToTrack 6 (Some 7) False (Some (1 / 2)) 3 1 1 2 2) =
     Inr (1, [riding, riding\<lparr>thermalEnergy := 6, track := Some 7, onTopSideOfTrack := False,
                parametricPosition := Some (1 / 2), parametricSpeed := 3, velocityX := 1,
                velocityY := 1, positionX := 2, positionY := 2\<rparr>])"
    by (simp add: attachToTrack_eq riding_def)
  have p: "assertions_pass [riding] 0 (AttachToTrack 6 (Some 7) False (Some (1 / 2)) 3 1 1 2 2)"
    by (simp add: riding_def)
  show ?thesis
    using transforms_are_pure [of True "[riding]" 0
        "AttachToTrack 6 (Some 7) False (Some (1 / 2)) 3 1 1 2 2"] a c p
    by simp
qed

section \<open>Thermal energy, mass and velocity\<close>



section \<open>Dragging\<close>




end
